theory Spec2Isabelle
  imports Main "HOL-Library.Monad_Syntax"
begin

section \<open>procs-need-restart: a shallow embedding of \<^verbatim>\<open>src/procs-need-restart.c\<close>\<close>

text \<open>
  The program inspects \<^verbatim>\<open>/proc\<close> and prints the processes whose executable or mapped
  files were deleted or replaced on disk. Every C function of the source file is
  translated into a HOL function of the same name. What the C code obtains from the
  operating system (directory listings, link targets, file sizes and contents, the
  result of \<^verbatim>\<open>kill\<close>) is read from one explicit snapshot of the system, the record
  \<open>os_env\<close>: each system call is a function of its arguments, so two calls with the
  same arguments see the same answer. What the program prints on standard output is
  returned as a list of lines next to each function's return value. Diagnostics on
  standard error carry no information the return values do not carry and are left out.

  C strings are \<open>string\<close>s without the terminating NUL; \<^verbatim>\<open>pid_t\<close> and \<^verbatim>\<open>int\<close> are
  \<open>int\<close>; sizes, addresses and inode numbers are \<open>nat\<close>. \<^verbatim>\<open>str_fmt\<close> appears as the
  functions that build the paths: its buffers hold every path it is asked to write
  (at most 21 bytes in a buffer of 24 for \<^verbatim>\<open>exe\<close> and \<^verbatim>\<open>maps\<close>, at most 60 bytes in the
  line buffer of at least \<^verbatim>\<open>PATH_MAX + 1\<close> bytes for \<^verbatim>\<open>map_files\<close>), so its assertion holds
  on every call.
\<close>

subsection \<open>Constants\<close>

definition RET_ERROR :: int where "RET_ERROR = - 1"
definition EXIT_SUCCESS :: int where "EXIT_SUCCESS = 0"
definition EXIT_FAILURE :: int where "EXIT_FAILURE = 1"
definition EXIT_WRONG_USAGE :: int where "EXIT_WRONG_USAGE = 100"
definition PATH_MAX :: nat where "PATH_MAX = 4096"
definition INT_MAX :: nat where "INT_MAX = 2147483647"
definition ULONG_MAX :: nat where "ULONG_MAX = 18446744073709551615"

definition NL :: char where "NL = CHR 0x0A"
definition TAB :: char where "TAB = CHR 0x09"
definition BACKSLASH :: char where "BACKSLASH = CHR 0x5C"

text \<open>The two bits of the global \<^verbatim>\<open>flags\<close> word, \<^verbatim>\<open>FLAG_VERBOSE\<close> and \<^verbatim>\<open>FLAG_IGNORE_EACCES\<close>.\<close>

record flags_t =
  FLAG_VERBOSE :: bool
  FLAG_IGNORE_EACCES :: bool

subsection \<open>Characters and numbers of the C library\<close>

definition isdigit :: "char \<Rightarrow> bool" where
  "isdigit c = (c \<in> set ''0123456789'')"

definition isxdigit :: "char \<Rightarrow> bool" where
  "isxdigit c = (c \<in> set ''0123456789abcdefABCDEF'')"

definition isspace :: "char \<Rightarrow> bool" where
  "isspace c = (c \<in> set [CHR '' '', CHR 0x09, CHR 0x0A, CHR 0x0B, CHR 0x0C, CHR 0x0D])"

definition digit_val :: "char \<Rightarrow> nat" where
  "digit_val c =
     (if isdigit c then of_char c - 48
      else if c \<in> set ''abcdef'' then of_char c - 87
      else of_char c - 55)"

text \<open>The value of a digit string, most significant digit first, in base \<open>b\<close>.\<close>

definition digits_val :: "nat \<Rightarrow> string \<Rightarrow> nat" where
  "digits_val b ds = foldl (\<lambda>acc c. acc * b + digit_val c) 0 ds"

definition digit_char :: "nat \<Rightarrow> char" where
  "digit_char d = ''0123456789abcdef'' ! d"

text \<open>\<^verbatim>\<open>printf\<close>'s \<^verbatim>\<open>%u\<close>/\<^verbatim>\<open>%d\<close> of a non-negative number and \<^verbatim>\<open>%lx\<close>.\<close>

fun dec_str :: "nat \<Rightarrow> string" where
  "dec_str n = (if n < 10 then [digit_char n] else dec_str (n div 10) @ [digit_char (n mod 10)])"

fun hex_str :: "nat \<Rightarrow> string" where
  "hex_str n = (if n < 16 then [digit_char n] else hex_str (n div 16) @ [digit_char (n mod 16)])"

declare dec_str.simps [simp del] hex_str.simps [simp del]

text \<open>
  \<^verbatim>\<open>%d\<close> of a \<^verbatim>\<open>pid_t\<close>. Every process identifier the program prints is non-negative
  (see \<open>str_to_uint\<close> and the check in \<open>main\<close>); the sign is written for completeness.
\<close>

definition fmt_pid :: "int \<Rightarrow> string" where
  "fmt_pid pid = (if pid < 0 then CHR ''-'' # dec_str (nat (- pid)) else dec_str (nat pid))"

subsection \<open>String helpers of the source\<close>

text \<open>
  \<^verbatim>\<open>str_chomp\<close> truncates \<open>str\<close> in place when it ends with \<open>suffix\<close>; the model
  returns the flag together with the string as it is after the call.
\<close>

definition str_chomp :: "string \<Rightarrow> string \<Rightarrow> bool \<times> string" where
  "str_chomp str suffix =
     (let str_len = length str; suffix_len = length suffix in
      if str_len < suffix_len then (False, str)
      else if drop (str_len - suffix_len) str = suffix
        then (True, take (str_len - suffix_len) str)
        else (False, str))"

text \<open>
  \<^verbatim>\<open>str_to_uint\<close>: the string must start with a digit, so \<^verbatim>\<open>strtoul\<close> skips no white
  space and reads no sign; it stops at the first non-digit (\<open>end\<close>) and reports
  \<^verbatim>\<open>ERANGE\<close> beyond \<^verbatim>\<open>ULONG_MAX\<close>.
\<close>

definition str_to_uint :: "string \<Rightarrow> int" where
  "str_to_uint str =
     (case str of
        [] \<Rightarrow> RET_ERROR
      | c0 # _ \<Rightarrow>
          if isdigit c0 then
            (let res = digits_val 10 (takeWhile isdigit str);
                 end = dropWhile isdigit str in
             if ULONG_MAX < res then RET_ERROR
             else if INT_MAX < res then RET_ERROR
             else if (case end of [] \<Rightarrow> False | e # _ \<Rightarrow> e = c0) then RET_ERROR
             else if end = [] then int res
             else RET_ERROR)
          else RET_ERROR)"

text \<open>
  \<^verbatim>\<open>atoi\<close> of the C library: leading white space, an optional sign, then the longest
  run of digits; whatever follows is ignored, and no digits give 0. The digits are
  accumulated in an \<^verbatim>\<open>int\<close>; a value outside \<^verbatim>\<open>int\<close> overflows it, which C leaves
  undefined and the compiled program answers by wrapping modulo \<open>2 ^ 32\<close>
  (\<^verbatim>\<open>2147483648\<close> reads as \<open>- 2147483648\<close>, \<^verbatim>\<open>4294967297\<close> as 1). \<open>to_int32\<close> is that wrap.
\<close>

definition to_int32 :: "int \<Rightarrow> int" where
  "to_int32 v = (v + 2147483648) mod 4294967296 - 2147483648"

definition atoi :: "string \<Rightarrow> int" where
  "atoi str =
     (let s = dropWhile isspace str in
      case s of
        [] \<Rightarrow> 0
      | c # r \<Rightarrow>
          if c = CHR ''-'' then to_int32 (- int (digits_val 10 (takeWhile isdigit r)))
          else if c = CHR ''+'' then to_int32 (int (digits_val 10 (takeWhile isdigit r)))
          else to_int32 (int (digits_val 10 (takeWhile isdigit s))))"

subsection \<open>\<^verbatim>\<open>fnmatch(3)\<close> with no flags\<close>

text \<open>
  The source calls \<^verbatim>\<open>fnmatch(pattern, string, 0)\<close>. With no flags a slash and a leading
  dot are ordinary characters, \<^verbatim>\<open>*\<close> matches any run of characters, \<^verbatim>\<open>?\<close> any one
  character, a backslash quotes the next character (at the end of the pattern it stands
  for itself, as in musl), and \<^verbatim>\<open>[...]\<close> matches one character
  of a set (single characters and ranges, complemented after \<^verbatim>\<open>!\<close> or \<^verbatim>\<open>^\<close>; a \<^verbatim>\<open>]\<close>
  right after the opening is a member; a \<^verbatim>\<open>[\<close> that is never closed is an ordinary
  character). Named classes such as \<^verbatim>\<open>[:alpha:]\<close> are not modelled.
\<close>

fun in_bracket :: "string \<Rightarrow> char \<Rightarrow> bool" where
  "in_bracket (a # m # b # cs) x =
     (if m = CHR ''-''
      then (if (of_char a :: nat) \<le> of_char x \<and> (of_char x :: nat) \<le> of_char b then True
            else in_bracket cs x)
      else (if x = a then True else in_bracket (m # b # cs) x))"
| "in_bracket (a # cs) x = (if x = a then True else in_bracket cs x)"
| "in_bracket [] x = False"

text \<open>The length of the set's text up to the closing bracket, if there is one.\<close>

definition bracket_len :: "string \<Rightarrow> nat option" where
  "bracket_len p =
     (let k = (if p \<noteq> [] \<and> hd p \<in> set ''!^'' then 1 else 0);
          q = drop k p;
          j = (if q \<noteq> [] \<and> hd q = CHR '']'' then 1 else 0);
          body = takeWhile (\<lambda>c. c \<noteq> CHR '']'') (drop j q);
          n = k + j + length body
      in if n < length p then Some n else None)"

definition bracket_ok :: "string \<Rightarrow> char \<Rightarrow> bool" where
  "bracket_ok body x =
     (if body \<noteq> [] \<and> hd body \<in> set ''!^'' then \<not> in_bracket (tl body) x
      else in_bracket body x)"

fun fnmatch :: "string \<Rightarrow> string \<Rightarrow> bool" where
  "fnmatch [] s = (s = [])"
| "fnmatch (c # p) s =
     (if c = CHR ''*'' then
        (if fnmatch p s then True
         else (case s of [] \<Rightarrow> False | x # s' \<Rightarrow> fnmatch (c # p) s'))
      else if c = CHR ''?'' then
        (case s of [] \<Rightarrow> False | x # s' \<Rightarrow> fnmatch p s')
      else if c = CHR ''['' then
        (case bracket_len p of
           None \<Rightarrow> (case s of [] \<Rightarrow> False | x # s' \<Rightarrow> x = c \<and> fnmatch p s')
         | Some n \<Rightarrow>
             (case s of [] \<Rightarrow> False
              | x # s' \<Rightarrow> bracket_ok (take n p) x \<and> fnmatch (drop (Suc n) p) s'))
      else if c = BACKSLASH then
        (case p of
           [] \<Rightarrow> (case s of [] \<Rightarrow> False | x # s' \<Rightarrow> x = c \<and> s' = [])
         | e # p' \<Rightarrow> (case s of [] \<Rightarrow> False | x # s' \<Rightarrow> x = e \<and> fnmatch p' s'))
      else (case s of [] \<Rightarrow> False | x # s' \<Rightarrow> x = c \<and> fnmatch p s'))"

text \<open>
  \<^verbatim>\<open>fnmatch_any\<close>: the patterns are tried in order; the first whose glob matches
  decides, \<^verbatim>\<open>true ^ negated\<close>. The \<^verbatim>\<open>flags\<close> argument is always 0 in the source.
\<close>

fun fnmatch_any :: "string list \<Rightarrow> string \<Rightarrow> bool" where
  "fnmatch_any [] string = False"
| "fnmatch_any (item # patterns) string =
     (let negated = (case item of [] \<Rightarrow> False | c # _ \<Rightarrow> c = CHR ''!'') in
      if fnmatch (if negated then tl item else item) string
      then (True \<noteq> negated)
      else fnmatch_any patterns string)"

subsection \<open>The operating system, as one snapshot\<close>

datatype errno = NO_ERRNO | EACCES | ENOENT | ESRCH | EPERM | EINVAL | EIO

text \<open>
  An open file: what \<^verbatim>\<open>fstat\<close> reports as \<^verbatim>\<open>st_size\<close> (\<open>None\<close> when \<^verbatim>\<open>fstat\<close> fails) and
  the bytes a shared read-only mapping of it shows (\<open>None\<close> when the file cannot be
  mapped).
\<close>

record file_t =
  st_size :: "nat option"
  map_bytes :: "string option"

text \<open>
  \<^item> \<open>geteuid\<close>: the effective user id;
  \<^item> \<open>opendir_proc\<close>: the entry names \<^verbatim>\<open>readdir\<close> yields for \<^verbatim>\<open>/proc\<close>, in order, or \<open>None\<close>
    when \<^verbatim>\<open>opendir\<close> fails;
  \<^item> \<open>readlink\<close>: the target of a symbolic link, or the error;
  \<^item> \<open>lstat_ok\<close>: whether \<^verbatim>\<open>lstat\<close> of the path returns 0;
  \<^item> \<open>kill0\<close>: \<^verbatim>\<open>kill(pid, 0)\<close>, \<open>None\<close> for success, else the error;
  \<^item> \<open>fopen_r\<close>: the lines of a text file as \<^verbatim>\<open>getline\<close> returns them one after the other
    (each with its newline), or the error of \<^verbatim>\<open>fopen\<close>;
  \<^item> \<open>open_ro\<close>: \<^verbatim>\<open>open(path, O_RDONLY)\<close>, \<open>None\<close> when it fails.
\<close>

record os_env =
  geteuid :: nat
  opendir_proc :: "string list option"
  readlink :: "string \<Rightarrow> errno + string"
  lstat_ok :: "string \<Rightarrow> bool"
  kill0 :: "int \<Rightarrow> errno option"
  fopen_r :: "string \<Rightarrow> errno + string list"
  open_ro :: "string \<Rightarrow> file_t option"

text \<open>
  \<^verbatim>\<open>mmap(NULL, size, PROT_READ, MAP_SHARED, fd, 0)\<close>. POSIX and Linux (since 2.6.12)
  make \<^verbatim>\<open>mmap\<close> fail with \<^verbatim>\<open>EINVAL\<close> when the length is 0; for a positive length the
  snapshot decides.
\<close>

definition mmap :: "file_t \<Rightarrow> nat \<Rightarrow> string option" where
  "mmap fd len = (if len = 0 then None else map_bytes fd)"

text \<open>The path macros, filled in by \<^verbatim>\<open>str_fmt\<close>/\<^verbatim>\<open>snprintf\<close>; \<^verbatim>\<open>%u\<close> prints the pid unsigned.\<close>

definition fmt_u :: "int \<Rightarrow> string" where
  "fmt_u pid = dec_str (nat (pid mod 4294967296))"

definition PROC_EXE_PATH :: "int \<Rightarrow> string" where
  "PROC_EXE_PATH pid = ''/proc/'' @ fmt_u pid @ ''/exe''"

definition PROC_MAPS_PATH :: "int \<Rightarrow> string" where
  "PROC_MAPS_PATH pid = ''/proc/'' @ fmt_u pid @ ''/maps''"

definition PROC_MAP_FILES_PATH :: "int \<Rightarrow> nat \<Rightarrow> nat \<Rightarrow> string" where
  "PROC_MAP_FILES_PATH pid a b =
     ''/proc/'' @ fmt_u pid @ ''/map_files/'' @ hex_str a @ ''-'' @ hex_str b"

definition PROC_ROOT_PATH :: "int \<Rightarrow> string \<Rightarrow> string" where
  "PROC_ROOT_PATH pid path = ''/proc/'' @ fmt_u pid @ ''/root/'' @ path"

subsection \<open>Comparing two files\<close>

text \<open>
  \<^verbatim>\<open>cmp_files\<close> returns 0 for identical contents, 1 for different files and
  \<^verbatim>\<open>RET_ERROR\<close> when a step fails. Sizes are compared first; only for equal sizes are
  both files mapped and compared byte by byte (\<^verbatim>\<open>memcmp\<close> over \<open>size\<close> bytes).
\<close>

definition cmp_files :: "os_env \<Rightarrow> string \<Rightarrow> string \<Rightarrow> int" where
  "cmp_files env fname1 fname2 =
     (case open_ro env fname1 of None \<Rightarrow> RET_ERROR | Some fd1 \<Rightarrow>
      case open_ro env fname2 of None \<Rightarrow> RET_ERROR | Some fd2 \<Rightarrow>
      case st_size fd1 of None \<Rightarrow> RET_ERROR | Some size1 \<Rightarrow>
      case st_size fd2 of None \<Rightarrow> RET_ERROR | Some size2 \<Rightarrow>
      if size1 = size2 then
        (case mmap fd1 size1 of None \<Rightarrow> RET_ERROR | Some addr1 \<Rightarrow>
         case mmap fd2 size1 of None \<Rightarrow> RET_ERROR | Some addr2 \<Rightarrow>
         if take size1 addr1 = take size1 addr2 then 0 else 1)
      else 1)"

subsection \<open>Processes\<close>

text \<open>
  \<^verbatim>\<open>next_pid\<close> reads directory entries until one is a number; the model returns the
  pid (or \<open>-1\<close> at the end of the directory) and the entries not yet read.
\<close>

fun next_pid :: "string list \<Rightarrow> int \<times> string list" where
  "next_pid [] = (- 1, [])"
| "next_pid (d_name # proc_dir) =
     (let pid = str_to_uint d_name in
      if pid = - 1 then next_pid proc_dir else (pid, proc_dir))"

definition is_kernel_proc :: "os_env \<Rightarrow> int \<Rightarrow> bool" where
  "is_kernel_proc env pid =
     (case readlink env (PROC_EXE_PATH pid) of
        Inr _ \<Rightarrow> False
      | Inl e \<Rightarrow> if e = ENOENT then lstat_ok env (PROC_EXE_PATH pid) else False)"

definition proc_exists :: "os_env \<Rightarrow> int \<Rightarrow> int" where
  "proc_exists env pid =
     (case kill0 env pid of
        None \<Rightarrow> 0
      | Some e \<Rightarrow> if e = ESRCH then 1 else RET_ERROR)"

text \<open>
  \<^verbatim>\<open>resolve_link\<close> reads at most \<open>buff_size - 1\<close> bytes of the target. The model returns
  the error number in place of \<^verbatim>\<open>RET_ERROR\<close> (the callers read \<^verbatim>\<open>errno\<close> right after),
  else the buffer's text.
\<close>

definition resolve_link :: "os_env \<Rightarrow> string \<Rightarrow> nat \<Rightarrow> errno + string" where
  "resolve_link env pathname buff_size =
     (case readlink env pathname of
        Inl e \<Rightarrow> Inl e
      | Inr target \<Rightarrow>
          (let buff = take (buff_size - 1) target in
           if buff_size \<le> length buff then Inl NO_ERRNO else Inr buff))"

subsection \<open>One line of \<^verbatim>\<open>/proc/<pid>/maps\<close>\<close>

record map_info =
  m_start :: nat
  m_end :: nat
  dev_major :: nat
  inode :: nat
  filename :: string

text \<open>
  The directives of the \<^verbatim>\<open>sscanf\<close> format
  \<^verbatim>\<open>"%lx-%lx %*c%*c%*c%*c %*x %x:%*x %lu%*[ \t]%4096[^\n]s"\<close>.
  A number is read after skipping white space and needs at least one digit; the
  kernel writes bare digits, and the sign and \<^verbatim>\<open>0x\<close> prefix \<^verbatim>\<open>scanf\<close> would also accept
  are not modelled, nor is the overflow of a number too large for its C type.
\<close>

definition scan_num :: "(char \<Rightarrow> bool) \<Rightarrow> nat \<Rightarrow> string \<Rightarrow> (nat \<times> string) option" where
  "scan_num is_digit base s =
     (let s1 = dropWhile isspace s; ds = takeWhile is_digit s1 in
      if ds = [] then None else Some (digits_val base ds, dropWhile is_digit s1))"

definition scan_lit :: "char \<Rightarrow> string \<Rightarrow> string option" where
  "scan_lit c s = (case s of [] \<Rightarrow> None | x # r \<Rightarrow> if x = c then Some r else None)"

definition scan_chars :: "nat \<Rightarrow> string \<Rightarrow> string option" where
  "scan_chars n s = (if length s < n then None else Some (drop n s))"

definition scan_set :: "(char \<Rightarrow> bool) \<Rightarrow> string \<Rightarrow> (string \<times> string) option" where
  "scan_set member s =
     (let t = takeWhile member s in
      if t = [] then None else Some (t, dropWhile member s))"

definition sscanf_maps :: "string \<Rightarrow> map_info option" where
  "sscanf_maps buf = do {
     (a, s1) \<leftarrow> scan_num isxdigit 16 buf;
     s2 \<leftarrow> scan_lit CHR ''-'' s1;
     (b, s3) \<leftarrow> scan_num isxdigit 16 s2;
     s4 \<leftarrow> scan_chars 4 (dropWhile isspace s3);
     (off, s5) \<leftarrow> scan_num isxdigit 16 (dropWhile isspace s4);
     (major, s6) \<leftarrow> scan_num isxdigit 16 (dropWhile isspace s5);
     s7 \<leftarrow> scan_lit CHR '':'' s6;
     (minor, s8) \<leftarrow> scan_num isxdigit 16 s7;
     (ino, s9) \<leftarrow> scan_num isdigit 10 (dropWhile isspace s8);
     (ws, s10) \<leftarrow> scan_set (\<lambda>c. c \<in> set [CHR '' '', TAB]) s9;
     (name, s11) \<leftarrow> scan_set (\<lambda>c. c \<noteq> NL) (take PATH_MAX s10);
     Some \<lparr>m_start = a, m_end = b, dev_major = major, inode = ino, filename = name\<rparr>
   }"

subsection \<open>The two checks of one process\<close>

text \<open>The result lines \<^verbatim>\<open>"%d\n"\<close> and \<^verbatim>\<open>"%d\t%s\n"\<close> written to standard output.\<close>

definition print_pid :: "int \<Rightarrow> string" where
  "print_pid pid = fmt_pid pid @ [NL]"

definition print_pid_file :: "int \<Rightarrow> string \<Rightarrow> string" where
  "print_pid_file pid name = fmt_pid pid @ [TAB] @ name @ [NL]"

text \<open>
  The \<^verbatim>\<open>while (getline ...)\<close> loop of \<^verbatim>\<open>proc_maps_replaced_files\<close>, over the lines not
  yet read. \<open>res\<close> and \<open>last_filename\<close> are the loop's variables; every \<^verbatim>\<open>continue\<close> is
  a recursive call on the remaining lines, and the \<^verbatim>\<open>break\<close> of the non-verbose case
  ends the recursion.
\<close>

fun maps_loop ::
  "os_env \<Rightarrow> flags_t \<Rightarrow> int \<Rightarrow> string list \<Rightarrow> string list \<Rightarrow> int \<Rightarrow> string
     \<Rightarrow> int \<times> string list" where
  "maps_loop env flags pid file_patterns [] res last_filename = (res, [])"
| "maps_loop env flags pid file_patterns (buf # lines) res last_filename =
     (case str_chomp buf ('' (deleted)'' @ [NL]) of
        (False, _) \<Rightarrow> maps_loop env flags pid file_patterns lines res last_filename
      | (True, buf1) \<Rightarrow>
          (case sscanf_maps (snd (str_chomp buf1 ''.apk-new'')) of
             None \<Rightarrow> maps_loop env flags pid file_patterns lines res last_filename
           | Some map' \<Rightarrow>
               if filename map' = last_filename
               then maps_loop env flags pid file_patterns lines res last_filename
               else if inode map' = 0
               then maps_loop env flags pid file_patterns lines res (filename map')
               else if dev_major map' = 0
               then maps_loop env flags pid file_patterns lines res (filename map')
               else if file_patterns \<noteq> [] \<and> \<not> fnmatch_any file_patterns (filename map')
               then maps_loop env flags pid file_patterns lines res (filename map')
               else if cmp_files env (filename map')
                         (PROC_MAP_FILES_PATH pid (m_start map') (m_end map')) = 0
               then maps_loop env flags pid file_patterns lines res (filename map')
               else if FLAG_VERBOSE flags
               then (case maps_loop env flags pid file_patterns lines 0 (filename map') of
                       (r, out) \<Rightarrow> (r, print_pid_file pid (filename map') # out))
               else (0, [print_pid pid])))"

definition proc_maps_replaced_files ::
  "os_env \<Rightarrow> flags_t \<Rightarrow> int \<Rightarrow> string list \<Rightarrow> int \<times> string list" where
  "proc_maps_replaced_files env flags pid file_patterns =
     (case fopen_r env (PROC_MAPS_PATH pid) of
        Inl fopen_err \<Rightarrow>
          if fopen_err = EACCES \<and> FLAG_IGNORE_EACCES flags then (1, [])
          else if proc_exists env pid = 1 then (1, [])
          else (RET_ERROR, [])
      | Inr lines \<Rightarrow> maps_loop env flags pid file_patterns lines 1 [])"

text \<open>
  \<^verbatim>\<open>proc_has_replaced_exe\<close>. When \<^verbatim>\<open>snprintf\<close> reports a path of \<^verbatim>\<open>PATH_MAX\<close> bytes or
  more, the source logs it and falls through to the report below the block.
\<close>

definition proc_has_replaced_exe ::
  "os_env \<Rightarrow> flags_t \<Rightarrow> int \<Rightarrow> string list \<Rightarrow> int \<times> string list" where
  "proc_has_replaced_exe env flags pid file_patterns =
     (let exe_path = PROC_EXE_PATH pid in
      case resolve_link env exe_path PATH_MAX of
        Inl link_err \<Rightarrow>
          if link_err = EACCES \<and> FLAG_IGNORE_EACCES flags then (1, [])
          else if proc_exists env pid = 1 then (1, [])
          else (RET_ERROR, [])
      | Inr link_path0 \<Rightarrow>
          (case str_chomp link_path0 '' (deleted)'' of
             (False, _) \<Rightarrow> (1, [])
           | (True, link_path1) \<Rightarrow>
               (let link_path = snd (str_chomp link_path1 ''.apk-new'');
                    file_path = PROC_ROOT_PATH pid link_path;
                    len = length file_path;
                    report = (0, [if FLAG_VERBOSE flags then print_pid_file pid link_path
                                  else print_pid pid])
                in
                if file_patterns \<noteq> [] \<and> \<not> fnmatch_any file_patterns link_path then (1, [])
                else if len = 0 then report
                else if PATH_MAX \<le> len then report
                else if cmp_files env exe_path file_path = 0 then (1, [])
                else report)))"

definition scan_proc ::
  "os_env \<Rightarrow> flags_t \<Rightarrow> int \<Rightarrow> string list \<Rightarrow> int \<times> string list" where
  "scan_proc env flags pid file_patterns =
     (case proc_has_replaced_exe env flags pid file_patterns of
        (res1, out1) \<Rightarrow>
          if res1 = RET_ERROR then (RET_ERROR, out1)
          else if res1 = 0 \<and> \<not> FLAG_VERBOSE flags then (0, out1)
          else (case proc_maps_replaced_files env flags pid file_patterns of
                  (res2, out2) \<Rightarrow> (res1 * res2, out1 @ out2)))"

subsection \<open>Scanning many processes\<close>

text \<open>
  The \<^verbatim>\<open>foreach\<close> of \<^verbatim>\<open>scan_procs\<close>, with \<open>status\<close> as its variable. The list holds the
  pids before the terminating \<open>-1\<close>.
\<close>

fun scan_procs_loop ::
  "os_env \<Rightarrow> flags_t \<Rightarrow> string list \<Rightarrow> int list \<Rightarrow> int \<Rightarrow> int \<times> string list" where
  "scan_procs_loop env flags file_patterns [] status = (status, [])"
| "scan_procs_loop env flags file_patterns (pid # pids) status =
     (case scan_proc env flags pid file_patterns of
        (r, out) \<Rightarrow>
          (case scan_procs_loop env flags file_patterns pids
                  (if r < 0 then EXIT_FAILURE else status) of
             (st, outs) \<Rightarrow> (st, out @ outs)))"

definition scan_procs ::
  "os_env \<Rightarrow> flags_t \<Rightarrow> int list \<Rightarrow> string list \<Rightarrow> int \<times> string list" where
  "scan_procs env flags pids file_patterns =
     scan_procs_loop env flags file_patterns pids EXIT_SUCCESS"

lemma next_pid_shorter: "next_pid d = (pid, d') \<Longrightarrow> pid \<noteq> - 1 \<Longrightarrow> length d' < length d"
  by (induction d) (auto simp: Let_def split: if_splits)

text \<open>The \<^verbatim>\<open>while ((pid = next_pid(dir)) != -1)\<close> loop of \<^verbatim>\<open>scan_all_procs\<close>.\<close>

function scan_all_loop ::
  "os_env \<Rightarrow> flags_t \<Rightarrow> string list \<Rightarrow> string list \<Rightarrow> int \<Rightarrow> int \<times> string list" where
  "scan_all_loop env flags file_patterns dir status =
     (case next_pid dir of
        (pid, dir') \<Rightarrow>
          if pid = - 1 then (status, [])
          else if is_kernel_proc env pid
          then scan_all_loop env flags file_patterns dir' status
          else (case scan_proc env flags pid file_patterns of
                  (r, out) \<Rightarrow>
                    (case scan_all_loop env flags file_patterns dir'
                            (if r < 0 then EXIT_FAILURE else status) of
                       (st, outs) \<Rightarrow> (st, out @ outs))))"
  by pat_completeness auto
termination
  by (relation "measure (\<lambda>(env, flags, file_patterns, dir, status). length dir)")
     (auto dest: next_pid_shorter [OF sym])

declare scan_all_loop.simps [simp del]

definition scan_all_procs :: "os_env \<Rightarrow> flags_t \<Rightarrow> string list \<Rightarrow> int \<times> string list" where
  "scan_all_procs env flags file_patterns =
     (case opendir_proc env of
        None \<Rightarrow> (EXIT_FAILURE, [])
      | Some dir \<Rightarrow>
          (case next_pid dir of
             (pid, dir') \<Rightarrow>
               if pid = - 1 then (EXIT_FAILURE, [])
               else scan_all_loop env flags file_patterns dir' EXIT_SUCCESS))"

subsection \<open>The command line\<close>

text \<open>
  The \<^verbatim>\<open>getopt(argc, argv, "f:hVv")\<close> loop of \<open>main\<close>, following POSIX \<^verbatim>\<open>getopt\<close> (as in
  musl, the C library of the distribution the program is written for): options are
  read up to the first argument that is not an option, or up to \<^verbatim>\<open>--\<close>. The result is
  the exit status of an early \<^verbatim>\<open>return\<close>, or the verbose flag, the patterns and the
  arguments from \<^verbatim>\<open>optind\<close> on. The help and version texts are not part of the output
  the model keeps.
\<close>

fun getopt_loop ::
  "string list \<Rightarrow> bool \<Rightarrow> string list \<Rightarrow> int + (bool \<times> string list \<times> string list)"
and getopt_group ::
  "string \<Rightarrow> string list \<Rightarrow> bool \<Rightarrow> string list \<Rightarrow> int + (bool \<times> string list \<times> string list)"
where
  "getopt_loop [] verbose file_patterns = Inr (verbose, file_patterns, [])"
| "getopt_loop (arg # args) verbose file_patterns =
     (if arg = ''--'' then Inr (verbose, file_patterns, args)
      else (case arg of
              c # optch # rest \<Rightarrow>
                if c = CHR ''-'' then getopt_group (optch # rest) args verbose file_patterns
                else Inr (verbose, file_patterns, arg # args)
            | _ \<Rightarrow> Inr (verbose, file_patterns, arg # args)))"
| "getopt_group [] args verbose file_patterns = getopt_loop args verbose file_patterns"
| "getopt_group (optch # rest) args verbose file_patterns =
     (if optch = CHR ''f'' then
        (case rest of
           _ # _ \<Rightarrow> getopt_loop args verbose (file_patterns @ [rest])
         | [] \<Rightarrow>
             (case args of
                [] \<Rightarrow> Inl EXIT_WRONG_USAGE
              | optarg # args' \<Rightarrow> getopt_loop args' verbose (file_patterns @ [optarg])))
      else if optch = CHR ''v'' then getopt_group rest args True file_patterns
      else if optch = CHR ''h'' then Inl EXIT_SUCCESS
      else if optch = CHR ''V'' then Inl EXIT_SUCCESS
      else Inl EXIT_WRONG_USAGE)"

text \<open>The \<^verbatim>\<open>for\<close> loop over the positional arguments: \<open>None\<close> is the early \<^verbatim>\<open>return\<close>.\<close>

fun parse_pids :: "string list \<Rightarrow> int list option" where
  "parse_pids [] = Some []"
| "parse_pids (arg # args) =
     (let pid = atoi arg in
      if pid < 1 then None
      else (case parse_pids args of None \<Rightarrow> None | Some pids \<Rightarrow> Some (pid # pids)))"

text \<open>\<open>main\<close>: \<open>argv\<close> with the program name first; the result is the exit status and the output.\<close>

definition main :: "os_env \<Rightarrow> string list \<Rightarrow> int \<times> string list" where
  "main env argv =
     (case getopt_loop (tl argv) False [] of
        Inl status \<Rightarrow> (status, [])
      | Inr (verbose, file_patterns, args) \<Rightarrow>
          (case args of
             _ # _ \<Rightarrow>
               (case parse_pids args of
                  None \<Rightarrow> (EXIT_WRONG_USAGE, [])
                | Some pids \<Rightarrow>
                    scan_procs env \<lparr>FLAG_VERBOSE = verbose, FLAG_IGNORE_EACCES = False\<rparr>
                      pids file_patterns)
           | [] \<Rightarrow>
               scan_all_procs env
                 \<lparr>FLAG_VERBOSE = verbose, FLAG_IGNORE_EACCES = (geteuid env \<noteq> 0)\<rparr>
                 file_patterns))"

subsection \<open>Notions of the specification\<close>

text \<open>
  The definitions of this subsection are not functions of the source file: they name
  what the specification talks about, so that the theorems below can compare it with
  the functions translated above.
\<close>

text \<open>
  A filter rule is negated when it starts with \<^verbatim>\<open>!\<close>; its glob is the text after the
  marker. A path is selected when the rule list is empty (both callers test
  \<^verbatim>\<open>file_patterns[0]\<close> before they call \<^verbatim>\<open>fnmatch_any\<close>) or \<^verbatim>\<open>fnmatch_any\<close> returns true.
\<close>

definition is_negated :: "string \<Rightarrow> bool" where
  "is_negated item = (case item of [] \<Rightarrow> False | c # _ \<Rightarrow> c = CHR ''!'')"

definition glob_of :: "string \<Rightarrow> string" where
  "glob_of item = (if is_negated item then tl item else item)"

definition selected :: "string list \<Rightarrow> string \<Rightarrow> bool" where
  "selected file_patterns name =
     (if file_patterns = [] then True else fnmatch_any file_patterns name)"

text \<open>
  The memory-map parser: a line is relevant when it ends with the deletion marker and
  its text before the marker, with one staging suffix removed, has the five fields;
  the stream of entries is the relevant lines' entries in order.
\<close>

definition parse_line :: "string \<Rightarrow> map_info option" where
  "parse_line buf =
     (case str_chomp buf ('' (deleted)'' @ [NL]) of
        (False, _) \<Rightarrow> None
      | (True, buf1) \<Rightarrow> sscanf_maps (snd (str_chomp buf1 ''.apk-new'')))"

definition parse_stream :: "string list \<Rightarrow> map_info list" where
  "parse_stream lines = List.map_filter parse_line lines"

text \<open>
  Order-adjacent deduplication: an entry is dropped when its filename is the filename
  of the entry kept last (\<open>prev\<close>, empty at the start of the stream).
\<close>

fun dedup_adjacent :: "string \<Rightarrow> map_info list \<Rightarrow> map_info list" where
  "dedup_adjacent prev [] = []"
| "dedup_adjacent prev (m # ms) =
     (if filename m = prev then dedup_adjacent prev ms
      else m # dedup_adjacent (filename m) ms)"

text \<open>
  The classification of the entries that are left: synthetic entries and entries the
  rules do not select are skipped, the others are compared with the mapped file;
  \<open>res\<close> is 1 until a stale file is found.
\<close>

fun classify_entries ::
  "os_env \<Rightarrow> flags_t \<Rightarrow> int \<Rightarrow> string list \<Rightarrow> map_info list \<Rightarrow> int \<Rightarrow> int \<times> string list" where
  "classify_entries env flags pid file_patterns [] res = (res, [])"
| "classify_entries env flags pid file_patterns (m # ms) res =
     (if inode m = 0 then classify_entries env flags pid file_patterns ms res
      else if dev_major m = 0 then classify_entries env flags pid file_patterns ms res
      else if selected file_patterns (filename m) then
        (if cmp_files env (filename m) (PROC_MAP_FILES_PATH pid (m_start m) (m_end m)) = 0
         then classify_entries env flags pid file_patterns ms res
         else if FLAG_VERBOSE flags
         then (case classify_entries env flags pid file_patterns ms 0 of
                 (r, out) \<Rightarrow> (r, print_pid_file pid (filename m) # out))
         else (0, [print_pid pid]))
      else classify_entries env flags pid file_patterns ms res)"

text \<open>
  The verdict on an executable whose recovered name is \<open>name\<close>: the rules are applied
  to \<open>name\<close>, and the running image is compared with the file \<open>name\<close> under the root
  directory of the process.
\<close>

definition exe_verdict ::
  "os_env \<Rightarrow> flags_t \<Rightarrow> int \<Rightarrow> string list \<Rightarrow> string \<Rightarrow> int \<times> string list" where
  "exe_verdict env flags pid file_patterns name =
     (if selected file_patterns name then
        (if length (PROC_ROOT_PATH pid name) < PATH_MAX
            \<and> cmp_files env (PROC_EXE_PATH pid) (PROC_ROOT_PATH pid name) = 0
         then (1, [])
         else (0, [if FLAG_VERBOSE flags then print_pid_file pid name else print_pid pid]))
      else (1, []))"

text \<open>
  A file the comparator cannot use: it cannot be opened, or \<^verbatim>\<open>fstat\<close> fails on it, or
  it cannot be mapped at its own size. A comparison cannot be made when one of the
  two files is of that kind.
\<close>

definition unusable :: "os_env \<Rightarrow> string \<Rightarrow> bool" where
  "unusable env fname =
     (case open_ro env fname of
        None \<Rightarrow> True
      | Some fd \<Rightarrow>
          (case st_size fd of
             None \<Rightarrow> True
           | Some n \<Rightarrow> (case mmap fd n of None \<Rightarrow> True | Some bytes \<Rightarrow> False)))"

definition cannot_compare :: "os_env \<Rightarrow> string \<Rightarrow> string \<Rightarrow> bool" where
  "cannot_compare env fname1 fname2 =
     (if unusable env fname1 then True else unusable env fname2)"

definition ends_with :: "string \<Rightarrow> string \<Rightarrow> bool" where
  "ends_with s sfx =
     (if length s < length sfx then False else drop (length s - length sfx) s = sfx)"

text \<open>The process identifiers a directory listing holds, in the order \<^verbatim>\<open>readdir\<close> yields them.\<close>

definition dir_pids :: "string list \<Rightarrow> int list" where
  "dir_pids dir = filter (\<lambda>pid. pid \<noteq> - 1) (map str_to_uint dir)"

subsection \<open>Concrete systems\<close>

text \<open>A system with nothing in it: every call fails, no process exists.\<close>

definition env_none :: os_env where
  "env_none =
     \<lparr>geteuid = 0, opendir_proc = None, readlink = (\<lambda>p. Inl ENOENT),
      lstat_ok = (\<lambda>p. False), kill0 = (\<lambda>pid. Some ESRCH),
      fopen_r = (\<lambda>p. Inl ENOENT), open_ro = (\<lambda>p. None)\<rparr>"

definition quiet :: flags_t where
  "quiet = \<lparr>FLAG_VERBOSE = False, FLAG_IGNORE_EACCES = False\<rparr>"

definition verbose :: flags_t where
  "verbose = \<lparr>FLAG_VERBOSE = True, FLAG_IGNORE_EACCES = False\<rparr>"

text \<open>
  Two processes. Process 1 runs \<^verbatim>\<open>/sbin/init\<close>, which was replaced on disk by a file
  with other content; process 2 runs \<^verbatim>\<open>/bin/sh\<close>, untouched, and maps nothing that was
  deleted.
\<close>

definition env_init_replaced :: os_env where
  "env_init_replaced = env_none
     \<lparr>opendir_proc := Some [''.'', ''..'', ''1'', ''2'', ''self''],
      readlink := (\<lambda>p. if p = ''/proc/1/exe'' then Inr ''/sbin/init (deleted)''
                        else if p = ''/proc/2/exe'' then Inr ''/bin/sh''
                        else Inl ENOENT),
      lstat_ok := (\<lambda>p. p = ''/proc/1/exe'' \<or> p = ''/proc/2/exe''),
      kill0 := (\<lambda>pid. if pid = 1 \<or> pid = 2 then None else Some ESRCH),
      fopen_r := (\<lambda>p. if p = ''/proc/1/maps'' \<or> p = ''/proc/2/maps'' then Inr []
                       else Inl ENOENT),
      open_ro := (\<lambda>p. if p = ''/proc/1/exe''
                         then Some \<lparr>st_size = Some 3, map_bytes = Some ''old''\<rparr>
                       else if p = ''/proc/1/root//sbin/init''
                         then Some \<lparr>st_size = Some 3, map_bytes = Some ''new''\<rparr>
                       else None)\<rparr>"

text \<open>Two readable regular files of length 0.\<close>

definition env_empty_files :: os_env where
  "env_empty_files = env_none
     \<lparr>open_ro := (\<lambda>p. if p = ''/tmp/a'' \<or> p = ''/tmp/b''
                         then Some \<lparr>st_size = Some 0, map_bytes = Some []\<rparr>
                       else None)\<rparr>"

text \<open>
  An unprivileged user (uid 1000) and a process 7 of another user: its \<^verbatim>\<open>exe\<close> link and
  its \<^verbatim>\<open>maps\<close> file cannot be read (\<^verbatim>\<open>EACCES\<close>), and \<^verbatim>\<open>kill(7, 0)\<close> fails with \<^verbatim>\<open>EPERM\<close>.
  Process 1 is listed first and runs an untouched \<^verbatim>\<open>/sbin/init\<close>.
\<close>

definition env_denied :: os_env where
  "env_denied = env_none
     \<lparr>geteuid := 1000,
      opendir_proc := Some [''.'', ''..'', ''1'', ''7''],
      readlink := (\<lambda>p. if p = ''/proc/7/exe'' then Inl EACCES
                        else if p = ''/proc/1/exe'' then Inl EACCES
                        else Inl ENOENT),
      lstat_ok := (\<lambda>p. p = ''/proc/1/exe'' \<or> p = ''/proc/7/exe''),
      kill0 := (\<lambda>pid. if pid = 1 \<or> pid = 7 then Some EPERM else Some ESRCH),
      fopen_r := (\<lambda>p. if p = ''/proc/1/maps'' \<or> p = ''/proc/7/maps'' then Inl EACCES
                       else Inl ENOENT)\<rparr>"

text \<open>
  The system \<open>env_init_replaced\<close>, except that the \<^verbatim>\<open>exe\<close> link of process 2 cannot be
  read for a reason that is neither a missing permission nor a vanished process
  (\<^verbatim>\<open>EIO\<close>, and \<^verbatim>\<open>kill(2, 0)\<close> succeeds).
\<close>

definition env_exe_unreadable :: os_env where
  "env_exe_unreadable = env_init_replaced
     \<lparr>readlink := (\<lambda>p. if p = ''/proc/1/exe'' then Inr ''/sbin/init (deleted)''
                        else if p = ''/proc/2/exe'' then Inl EIO
                        else Inl ENOENT)\<rparr>"

text \<open>The system \<open>env_init_replaced\<close>, except that no \<^verbatim>\<open>maps\<close> file can be opened (\<^verbatim>\<open>EIO\<close>).\<close>

definition env_maps_unreadable :: os_env where
  "env_maps_unreadable = env_init_replaced \<lparr>fopen_r := (\<lambda>p. Inl EIO)\<rparr>"

text \<open>
  Process 7 maps \<^verbatim>\<open>/usr/lib/libfoo.so.1\<close>, whose file was replaced: its \<^verbatim>\<open>maps\<close> file has
  three consecutive lines for the file that differ in the permission field only. The
  file now on disk differs from the mapped one.
\<close>

definition libfoo_line :: "string \<Rightarrow> string" where
  "libfoo_line perms =
     ''7f0000000000-7f0000021000 '' @ perms @
     '' 00000000 08:01 1234    /usr/lib/libfoo.so.1 (deleted)'' @ [NL]"

definition libfoo_entry :: map_info where
  "libfoo_entry =
     \<lparr>m_start = 139637976727552, m_end = 139637976862720, dev_major = 8, inode = 1234,
      filename = ''/usr/lib/libfoo.so.1''\<rparr>"

definition env_libfoo :: os_env where
  "env_libfoo = env_none
     \<lparr>readlink := (\<lambda>p. if p = ''/proc/7/exe'' then Inr ''/usr/bin/foo'' else Inl ENOENT),
      lstat_ok := (\<lambda>p. p = ''/proc/7/exe''),
      kill0 := (\<lambda>pid. if pid = 7 then None else Some ESRCH),
      fopen_r := (\<lambda>p. if p = ''/proc/7/maps''
                         then Inr [libfoo_line ''r--p'', libfoo_line ''r-xp'', libfoo_line ''rw-p'']
                       else Inl ENOENT),
      open_ro := (\<lambda>p. if p = ''/usr/lib/libfoo.so.1''
                         then Some \<lparr>st_size = Some 3, map_bytes = Some ''new''\<rparr>
                       else if p = ''/proc/7/map_files/7f0000000000-7f0000021000''
                         then Some \<lparr>st_size = Some 3, map_bytes = Some ''old''\<rparr>
                       else None)\<rparr>"

text \<open>
  The same process when the mapped file was truncated to length 0 before it was
  deleted, and the file now on disk is empty as well: the two contents are equal.
\<close>

definition env_libfoo_empty :: os_env where
  "env_libfoo_empty = env_libfoo
     \<lparr>open_ro := (\<lambda>p. if p = ''/usr/lib/libfoo.so.1''
                              \<or> p = ''/proc/7/map_files/7f0000000000-7f0000021000''
                         then Some \<lparr>st_size = Some 0, map_bytes = Some []\<rparr>
                       else None)\<rparr>"

text \<open>The same process when the library was deleted and nothing took its place.\<close>

definition env_libfoo_gone :: os_env where
  "env_libfoo_gone = env_libfoo
     \<lparr>open_ro := (\<lambda>p. if p = ''/proc/7/map_files/7f0000000000-7f0000021000''
                         then Some \<lparr>st_size = Some 3, map_bytes = Some ''old''\<rparr>
                       else None)\<rparr>"

text \<open>
  The same process when the file now on disk can be opened but \<^verbatim>\<open>fstat\<close> fails on it,
  and when it can be opened and has the mapped file's size but cannot be mapped.
\<close>

definition env_libfoo_nostat :: os_env where
  "env_libfoo_nostat = env_libfoo
     \<lparr>open_ro := (\<lambda>p. if p = ''/usr/lib/libfoo.so.1''
                         then Some \<lparr>st_size = None, map_bytes = Some ''old''\<rparr>
                       else if p = ''/proc/7/map_files/7f0000000000-7f0000021000''
                         then Some \<lparr>st_size = Some 3, map_bytes = Some ''old''\<rparr>
                       else None)\<rparr>"

definition env_libfoo_nomap :: os_env where
  "env_libfoo_nomap = env_libfoo
     \<lparr>open_ro := (\<lambda>p. if p = ''/usr/lib/libfoo.so.1''
                         then Some \<lparr>st_size = Some 3, map_bytes = None\<rparr>
                       else if p = ''/proc/7/map_files/7f0000000000-7f0000021000''
                         then Some \<lparr>st_size = Some 3, map_bytes = Some ''old''\<rparr>
                       else None)\<rparr>"

text \<open>
  The system \<open>env_init_replaced\<close> when \<^verbatim>\<open>/sbin/init\<close> was deleted and nothing took its
  place.
\<close>

definition env_init_gone :: os_env where
  "env_init_gone = env_init_replaced
     \<lparr>open_ro := (\<lambda>p. if p = ''/proc/1/exe''
                         then Some \<lparr>st_size = Some 3, map_bytes = Some ''old''\<rparr>
                       else None)\<rparr>"

text \<open>
  Process 8 runs \<^verbatim>\<open>/usr/bin/foo\<close> and maps \<^verbatim>\<open>/usr/lib/libbar.so.2\<close>; the kernel shows both
  under the staging names the package manager gave their replacements before it
  renamed them. The files now at the final names are identical to the running ones;
  no file exists at a staging name.
\<close>

definition env_staged :: os_env where
  "env_staged = env_none
     \<lparr>readlink := (\<lambda>p. if p = ''/proc/8/exe'' then Inr ''/usr/bin/foo.apk-new (deleted)''
                        else Inl ENOENT),
      lstat_ok := (\<lambda>p. p = ''/proc/8/exe''),
      kill0 := (\<lambda>pid. if pid = 8 then None else Some ESRCH),
      fopen_r := (\<lambda>p. if p = ''/proc/8/maps''
                         then Inr [''7f0000000000-7f0000021000 r-xp 00000000 08:01 77 '' @
                                   ''/usr/lib/libbar.so.2.apk-new (deleted)'' @ [NL]]
                       else Inl ENOENT),
      open_ro := (\<lambda>p. if p = ''/proc/8/exe'' \<or> p = ''/proc/8/root//usr/bin/foo''
                         then Some \<lparr>st_size = Some 3, map_bytes = Some ''foo''\<rparr>
                       else if p = ''/usr/lib/libbar.so.2''
                              \<or> p = ''/proc/8/map_files/7f0000000000-7f0000021000''
                         then Some \<lparr>st_size = Some 3, map_bytes = Some ''bar''\<rparr>
                       else None)\<rparr>"

section \<open>Properties\<close>

lemmas char_defs = NL_def TAB_def BACKSLASH_def isdigit_def isxdigit_def isspace_def
  digit_val_def digits_val_def digit_char_def

lemmas path_defs = PROC_EXE_PATH_def PROC_MAPS_PATH_def PROC_MAP_FILES_PATH_def
  PROC_ROOT_PATH_def fmt_u_def fmt_pid_def print_pid_def print_pid_file_def
  dec_str.simps hex_str.simps

lemmas const_defs = RET_ERROR_def EXIT_SUCCESS_def EXIT_FAILURE_def EXIT_WRONG_USAGE_def
  PATH_MAX_def INT_MAX_def ULONG_MAX_def

lemma str_chomp_append: "str_chomp (s @ suf) suf = (True, s)"
  by (simp add: str_chomp_def)

subsection \<open>The pattern matcher\<close>

lemma fnmatch_any_find:
  "fnmatch_any R p =
     (case find (\<lambda>item. fnmatch (glob_of item) p) R of
        None \<Rightarrow> False
      | Some item \<Rightarrow> \<not> is_negated item)"
  by (induction R) (auto simp: glob_of_def is_negated_def Let_def split: list.splits)

lemma selected_guard:
  "(file_patterns \<noteq> [] \<and> \<not> fnmatch_any file_patterns name) = (\<not> selected file_patterns name)"
  by (simp add: selected_def)

text \<open>
  Claim C4, as the source has it. For every rule list \<open>R\<close> and path \<open>p\<close>: an empty list
  selects \<open>p\<close>; otherwise the first rule of \<open>R\<close> whose glob matches \<open>p\<close> decides, selected
  when that rule is not negated and not selected when it is, and \<open>p\<close> is not selected
  when no rule matches. The glob \<^verbatim>\<open>*.so\<close> matches \<^verbatim>\<open>/usr/liblocal.so\<close> (with no flags
  \<^verbatim>\<open>*\<close> runs over slashes), so the list \<^verbatim>\<open>["*.so", "!lib*.so"]\<close> selects that path: the
  first rule decides and the negated second rule is never consulted.
\<close>

theorem C4_first_match_decides:
  "selected R p =
     (case find (\<lambda>item. fnmatch (glob_of item) p) R of
        None \<Rightarrow> R = []
      | Some item \<Rightarrow> \<not> is_negated item)
   \<and> selected [''*.so'', ''!lib*.so''] ''/usr/liblocal.so''
   \<and> \<not> selected [''!*.so''] ''/lib/libc.so''"
proof (intro conjI)
  show "selected R p =
     (case find (\<lambda>item. fnmatch (glob_of item) p) R of
        None \<Rightarrow> R = []
      | Some item \<Rightarrow> \<not> is_negated item)"
  proof (cases R)
    case Nil
    then show ?thesis by (simp add: selected_def)
  next
    case (Cons r rs)
    then show ?thesis
      by (simp only: selected_def fnmatch_any_find) (simp split: option.splits)
  qed
  show "selected [''*.so'', ''!lib*.so''] ''/usr/liblocal.so''"
    by (simp add: selected_def BACKSLASH_def)
  show "\<not> selected [''!*.so''] ''/lib/libc.so''"
    by (simp add: selected_def BACKSLASH_def)
qed

text \<open>
  Claim C4 as stated ends with \<^verbatim>\<open>matches(["*.so", "!lib*.so"], "/usr/liblocal.so") == false\<close>.
  On the source the call returns true, and the path is selected.
\<close>

theorem C4_example_is_selected:
  "fnmatch ''*.so'' ''/usr/liblocal.so''
   \<and> fnmatch_any [''*.so'', ''!lib*.so''] ''/usr/liblocal.so''
   \<and> selected [''*.so'', ''!lib*.so''] ''/usr/liblocal.so'' \<noteq> False"
  by (simp add: selected_def BACKSLASH_def)

subsection \<open>Kernel processes\<close>

text \<open>
  Claim C8. \<open>is_kernel_proc\<close> returns true exactly when reading the target of
  \<^verbatim>\<open>/proc/<pid>/exe\<close> fails with \<^verbatim>\<open>ENOENT\<close> while \<^verbatim>\<open>lstat\<close> of the link itself succeeds, and
  false in every other case: the link can be read, reading it fails with another
  error, or the link entry is gone as well (a process that has vanished).
\<close>

theorem C8_is_kernel_proc_iff:
  "is_kernel_proc env pid =
     (readlink env (PROC_EXE_PATH pid) = Inl ENOENT \<and> lstat_ok env (PROC_EXE_PATH pid))"
  by (auto simp: is_kernel_proc_def split: sum.splits)

subsection \<open>The file comparator\<close>

lemma cmp_files_sym: "cmp_files env a b = cmp_files env b a"
  by (auto simp: cmp_files_def mmap_def split: option.splits)

lemma cmp_files_refl:
  "open_ro env f = Some fd \<Longrightarrow> st_size fd = Some n \<Longrightarrow> 0 < n \<Longrightarrow> map_bytes fd = Some bytes
   \<Longrightarrow> cmp_files env f f = 0"
  by (simp add: cmp_files_def mmap_def)

lemma cmp_files_sizes_differ:
  "open_ro env a = Some fa \<Longrightarrow> open_ro env b = Some fb \<Longrightarrow> st_size fa = Some n
   \<Longrightarrow> st_size fb = Some m \<Longrightarrow> n \<noteq> m \<Longrightarrow> cmp_files env a b = 1"
  by (simp add: cmp_files_def)

lemma cmp_files_zero_length:
  "open_ro env a = Some fa \<Longrightarrow> open_ro env b = Some fb \<Longrightarrow> st_size fa = Some 0
   \<Longrightarrow> st_size fb = Some 0 \<Longrightarrow> cmp_files env a b = RET_ERROR"
  by (simp add: cmp_files_def mmap_def)

text \<open>
  Claim C5 on the source. The comparator is symmetric (\<open>cmp_files_sym\<close>), reflexive
  on every readable file of positive length that can be mapped (\<open>cmp_files_refl\<close>),
  and reports files of different sizes as different without mapping either
  (\<open>cmp_files_sizes_differ\<close>, which says nothing about \<open>map_bytes\<close>). For files of
  length 0 the claim fails: \<^verbatim>\<open>mmap\<close> is called with length 0 and fails, and \<open>cmp_files\<close>
  returns \<^verbatim>\<open>RET_ERROR\<close> instead of 0, for a file compared with itself and for two
  different empty files.
\<close>

theorem C5_zero_length_files_not_equal:
  "cmp_files env_empty_files ''/tmp/a'' ''/tmp/a'' = RET_ERROR
   \<and> cmp_files env_empty_files ''/tmp/a'' ''/tmp/b'' = RET_ERROR
   \<and> cmp_files env_empty_files ''/tmp/a'' ''/tmp/a'' \<noteq> 0"
  by (simp add: cmp_files_def mmap_def env_empty_files_def env_none_def RET_ERROR_def)

subsection \<open>The scan loops\<close>

lemma scan_procs_loop_status:
  "fst (scan_procs_loop env flags pats pids st) =
     (if list_ex (\<lambda>pid. fst (scan_proc env flags pid pats) < 0) pids then EXIT_FAILURE else st)"
  by (induction pids arbitrary: st) (simp_all add: case_prod_beta)

lemma scan_procs_loop_output:
  "snd (scan_procs_loop env flags pats pids st) =
     concat (map (\<lambda>pid. snd (scan_proc env flags pid pats)) pids)"
  by (induction pids arbitrary: st) (simp_all add: case_prod_beta)

lemma next_pid_dir_pids:
  "next_pid dir = (pid, dir') \<Longrightarrow>
     (if pid = - 1 then dir_pids dir = [] else dir_pids dir = pid # dir_pids dir')"
  by (induction dir arbitrary: pid dir') (auto simp: dir_pids_def Let_def split: if_splits)

lemma scan_all_loop_status:
  "fst (scan_all_loop env flags pats dir st) =
     (if list_ex (\<lambda>pid. fst (scan_proc env flags pid pats) < 0)
           (filter (\<lambda>pid. \<not> is_kernel_proc env pid) (dir_pids dir))
      then EXIT_FAILURE else st)"
proof (induction env flags pats dir st rule: scan_all_loop.induct)
  case (1 env flags pats dir st)
  obtain pid dir' where np: "next_pid dir = (pid, dir')" by (cases "next_pid dir")
  note dp = next_pid_dir_pids [OF np]
  show ?case
  proof (cases "pid = - 1")
    case True
    with np dp show ?thesis by (simp add: scan_all_loop.simps [of _ _ _ dir])
  next
    case False
    show ?thesis
    proof (cases "is_kernel_proc env pid")
      case True
      with np dp False "1.IH"(1) [OF np [symmetric] False True] show ?thesis
        by (simp add: scan_all_loop.simps [of _ _ _ dir])
    next
      case k: False
      obtain r out where sp: "scan_proc env flags pid pats = (r, out)"
        by (cases "scan_proc env flags pid pats")
      from "1.IH"(2) [OF np [symmetric] False k sp [symmetric]] np dp False k sp show ?thesis
        by (simp add: scan_all_loop.simps [of _ _ _ dir] case_prod_beta)
    qed
  qed
qed

lemma scan_all_loop_output:
  "snd (scan_all_loop env flags pats dir st) =
     concat (map (\<lambda>pid. snd (scan_proc env flags pid pats))
               (filter (\<lambda>pid. \<not> is_kernel_proc env pid) (dir_pids dir)))"
proof (induction env flags pats dir st rule: scan_all_loop.induct)
  case (1 env flags pats dir st)
  obtain pid dir' where np: "next_pid dir = (pid, dir')" by (cases "next_pid dir")
  note dp = next_pid_dir_pids [OF np]
  show ?case
  proof (cases "pid = - 1")
    case True
    with np dp show ?thesis by (simp add: scan_all_loop.simps [of _ _ _ dir])
  next
    case False
    show ?thesis
    proof (cases "is_kernel_proc env pid")
      case True
      with np dp False "1.IH"(1) [OF np [symmetric] False True] show ?thesis
        by (simp add: scan_all_loop.simps [of _ _ _ dir])
    next
      case k: False
      obtain r out where sp: "scan_proc env flags pid pats = (r, out)"
        by (cases "scan_proc env flags pid pats")
      from "1.IH"(2) [OF np [symmetric] False k sp [symmetric]] np dp False k sp show ?thesis
        by (simp add: scan_all_loop.simps [of _ _ _ dir] case_prod_beta)
    qed
  qed
qed

text \<open>
  \<open>scan_all_procs\<close> calls \<open>next_pid\<close> once before its loop and drops the result: the
  loop starts on the directory entries after the first process identifier.
\<close>

lemma scan_all_procs_unfold:
  "scan_all_procs env flags pats =
     (case opendir_proc env of
        None \<Rightarrow> (EXIT_FAILURE, [])
      | Some dir \<Rightarrow>
          (case dir_pids dir of
             [] \<Rightarrow> (EXIT_FAILURE, [])
           | first # others \<Rightarrow> scan_all_loop env flags pats (snd (next_pid dir)) EXIT_SUCCESS))"
proof (cases "opendir_proc env")
  case None
  then show ?thesis by (simp add: scan_all_procs_def)
next
  case (Some dir)
  obtain pid dir' where np: "next_pid dir = (pid, dir')" by (cases "next_pid dir")
  from next_pid_dir_pids [OF np] Some np show ?thesis
    by (auto simp: scan_all_procs_def split: if_splits)
qed

lemma scan_all_procs_classified:
  "opendir_proc env = Some dir \<Longrightarrow> dir_pids dir = first # others \<Longrightarrow>
   snd (scan_all_procs env flags pats) =
     concat (map (\<lambda>pid. snd (scan_proc env flags pid pats))
               (filter (\<lambda>pid. \<not> is_kernel_proc env pid) others))"
proof -
  assume od: "opendir_proc env = Some dir" and dp: "dir_pids dir = first # others"
  obtain pid dir' where np: "next_pid dir = (pid, dir')" by (cases "next_pid dir")
  from next_pid_dir_pids [OF np] dp have "dir_pids dir' = others"
    by (auto split: if_splits)
  with od dp np show ?thesis
    by (simp add: scan_all_procs_unfold scan_all_loop_output)
qed

text \<open>
  Claim C1 on the source. The directory lists the processes 1 and 2, neither a
  kernel process. Process 1 runs a replaced executable, and \<open>scan_proc\<close> reports it;
  the full scan reports nothing, because it never classifies process 1, the first
  process identifier \<^verbatim>\<open>readdir\<close> yields. In general (\<open>scan_all_procs_classified\<close>) the full
  scan classifies the non-kernel processes among all identifiers but the first.
\<close>

theorem C1_first_pid_not_classified:
  "dir_pids [''.'', ''..'', ''1'', ''2'', ''self''] = [1, 2]
   \<and> \<not> is_kernel_proc env_init_replaced 1
   \<and> scan_proc env_init_replaced quiet 1 [] = (0, [''1'' @ [NL]])
   \<and> scan_all_procs env_init_replaced quiet [] = (EXIT_SUCCESS, [])"
  by (simp add: scan_proc_def scan_all_procs_def scan_all_loop.simps is_kernel_proc_def
      proc_maps_replaced_files_def dir_pids_def str_to_uint_def
      proc_has_replaced_exe_def resolve_link_def env_init_replaced_def env_none_def
      quiet_def path_defs char_defs const_defs str_chomp_def cmp_files_def mmap_def)

subsection \<open>The command line\<close>

lemma parse_pids_None: "(parse_pids args = None) = list_ex (\<lambda>a. atoi a < 1) args"
  by (induction args) (auto simp: Let_def split: option.splits)

text \<open>
  An argument that \<^verbatim>\<open>atoi\<close> reads as a number below 1 ends the program with
  \<^verbatim>\<open>EXIT_WRONG_USAGE\<close> whatever the system looks like, so before any process is scanned.
\<close>

lemma main_usage_error:
  "getopt_loop (tl argv) False [] = Inr (v, pats, args) \<Longrightarrow> list_ex (\<lambda>a. atoi a < 1) args
   \<Longrightarrow> main env argv = (EXIT_WRONG_USAGE, [])"
  using parse_pids_None [of args] by (cases args) (auto simp: main_def)

lemma atoi_examples:
  "atoi ''abc'' = 0" "atoi ''0'' = 0" "atoi ''-5'' = - 5" "atoi '' 12'' = 12"
  "atoi ''2147483647'' = 2147483647" "atoi ''2147483648'' = - 2147483648"
  "atoi ''4294967297'' = 1"
  by (simp_all add: atoi_def to_int32_def char_defs)

text \<open>
  Claim C9 on the source. The argument \<^verbatim>\<open>3x\<close> is not a decimal integer, yet \<^verbatim>\<open>atoi\<close>
  reads it as 3: \<open>main\<close> does not stop with \<^verbatim>\<open>EXIT_WRONG_USAGE\<close> but scans process 3, on
  every system; on the system \<open>env_none\<close> the exit status is \<^verbatim>\<open>EXIT_SUCCESS\<close>.
  (Arguments that \<^verbatim>\<open>atoi\<close> reads as less than 1, such as \<^verbatim>\<open>abc\<close>, \<^verbatim>\<open>0\<close> and \<^verbatim>\<open>-5\<close>, are
  rejected: \<open>main_usage_error\<close>.)
\<close>

theorem C9_trailing_characters_accepted:
  "atoi ''3x'' = 3
   \<and> main env [''procs-need-restart'', ''3x''] = scan_procs env quiet [3] []
   \<and> main env_none [''procs-need-restart'', ''3x''] = (EXIT_SUCCESS, [])"
  by (simp add: main_def atoi_def to_int32_def char_defs quiet_def scan_procs_def scan_proc_def
      proc_has_replaced_exe_def proc_maps_replaced_files_def resolve_link_def proc_exists_def
      env_none_def const_defs)

subsection \<open>Permission errors\<close>

text \<open>
  Claim C2, as the source has it. \<open>main\<close> sets \<^verbatim>\<open>FLAG_IGNORE_EACCES\<close> only on the branch
  without positional arguments, and there exactly when the effective user id is not 0;
  with a list of process identifiers the flag is never set, whoever runs the program.
  When the flag is set, \<^verbatim>\<open>EACCES\<close> on the \<^verbatim>\<open>exe\<close> link or on the \<^verbatim>\<open>maps\<close> file gives the
  result 1 (not stale) with no output, and a process denied on both is not stale.
  When the flag is not set (a full scan by root, or any scan of listed processes),
  \<^verbatim>\<open>EACCES\<close> is the error result \<^verbatim>\<open>RET_ERROR\<close>, unless \<^verbatim>\<open>kill(pid, 0)\<close> reports that the
  process is gone, which gives 1.
\<close>

theorem C2_eacces_by_mode:
  "(getopt_loop (tl argv) False [] = Inr (v, pats, []) \<longrightarrow>
      main env argv =
        scan_all_procs env \<lparr>FLAG_VERBOSE = v, FLAG_IGNORE_EACCES = (geteuid env \<noteq> 0)\<rparr> pats)
   \<and> (getopt_loop (tl argv') False [] = Inr (v', pats', a # args)
        \<and> parse_pids (a # args) = Some pids \<longrightarrow>
      main env argv' =
        scan_procs env \<lparr>FLAG_VERBOSE = v', FLAG_IGNORE_EACCES = False\<rparr> pids pats')
   \<and> (readlink env (PROC_EXE_PATH pid) = Inl EACCES \<longrightarrow>
      proc_has_replaced_exe env flags pid fp =
        (if FLAG_IGNORE_EACCES flags then (1, [])
         else if proc_exists env pid = 1 then (1, [])
         else (RET_ERROR, [])))
   \<and> (fopen_r env (PROC_MAPS_PATH pid) = Inl EACCES \<longrightarrow>
      proc_maps_replaced_files env flags pid fp =
        (if FLAG_IGNORE_EACCES flags then (1, [])
         else if proc_exists env pid = 1 then (1, [])
         else (RET_ERROR, [])))
   \<and> (FLAG_IGNORE_EACCES flags \<and> readlink env (PROC_EXE_PATH pid) = Inl EACCES
        \<and> fopen_r env (PROC_MAPS_PATH pid) = Inl EACCES \<longrightarrow>
      scan_proc env flags pid fp = (1, []))"
  by (auto simp: main_def proc_has_replaced_exe_def proc_maps_replaced_files_def
      resolve_link_def scan_proc_def RET_ERROR_def)

theorem C2_eacces_by_mode_witness:
  "getopt_loop (tl [''procs-need-restart'']) False [] = Inr (False, [], [])
   \<and> main env_denied [''procs-need-restart''] =
       scan_all_procs env_denied \<lparr>FLAG_VERBOSE = False, FLAG_IGNORE_EACCES = True\<rparr> []
   \<and> getopt_loop (tl [''procs-need-restart'', ''7'']) False [] = Inr (False, [], [''7''])
   \<and> parse_pids [''7''] = Some [7]
   \<and> main env_denied [''procs-need-restart'', ''7''] =
       scan_procs env_denied \<lparr>FLAG_VERBOSE = False, FLAG_IGNORE_EACCES = False\<rparr> [7] []
   \<and> readlink env_denied (PROC_EXE_PATH 7) = Inl EACCES
   \<and> fopen_r env_denied (PROC_MAPS_PATH 7) = Inl EACCES
   \<and> proc_has_replaced_exe env_denied \<lparr>FLAG_VERBOSE = False, FLAG_IGNORE_EACCES = True\<rparr> 7 []
       = (1, [])
   \<and> proc_maps_replaced_files env_denied \<lparr>FLAG_VERBOSE = False, FLAG_IGNORE_EACCES = True\<rparr> 7 []
       = (1, [])
   \<and> scan_proc env_denied \<lparr>FLAG_VERBOSE = False, FLAG_IGNORE_EACCES = True\<rparr> 7 [] = (1, [])"
  using C2_eacces_by_mode [where argv = "[''procs-need-restart'']" and v = False and pats = "[]"
      and env = env_denied and argv' = "[''procs-need-restart'', ''7'']" and v' = False
      and pats' = "[]" and a = "''7''" and args = "[]" and pids = "[7]" and pid = 7
      and flags = "\<lparr>FLAG_VERBOSE = False, FLAG_IGNORE_EACCES = True\<rparr>" and fp = "[]"]
  by (simp add: env_denied_def env_none_def path_defs char_defs atoi_def to_int32_def)

text \<open>
  Claim C2 as stated lets an unprivileged user see \<^verbatim>\<open>EACCES\<close> as benign in the mode
  with listed process identifiers too. On the source user 1000 who names process 7,
  whose \<^verbatim>\<open>exe\<close> link is not readable, gets the error result and exit status
  \<^verbatim>\<open>EXIT_FAILURE\<close>.
\<close>

theorem C2_explicit_mode_eacces_is_error:
  "geteuid env_denied \<noteq> 0
   \<and> readlink env_denied (PROC_EXE_PATH 7) = Inl EACCES
   \<and> proc_has_replaced_exe env_denied quiet 7 [] = (RET_ERROR, [])
   \<and> main env_denied [''procs-need-restart'', ''7''] = (EXIT_FAILURE, [])"
  by (simp add: main_def atoi_def to_int32_def char_defs quiet_def scan_procs_def scan_proc_def
      proc_has_replaced_exe_def proc_maps_replaced_files_def resolve_link_def proc_exists_def
      env_denied_def env_none_def const_defs path_defs)

text \<open>The same user and system in a full scan: process 7 is skipped and the status is 0.\<close>

lemma full_scan_unprivileged_denied:
  "main env_denied [''procs-need-restart''] = (EXIT_SUCCESS, [])"
  by (simp add: main_def atoi_def to_int32_def char_defs quiet_def scan_all_procs_def scan_all_loop.simps scan_proc_def
      is_kernel_proc_def str_to_uint_def
      proc_has_replaced_exe_def proc_maps_replaced_files_def resolve_link_def proc_exists_def
      env_denied_def env_none_def const_defs path_defs)

subsection \<open>The aggregate status\<close>

lemma scan_proc_exe_error:
  "fst (proc_has_replaced_exe env flags pid pats) = RET_ERROR \<Longrightarrow>
   fst (scan_proc env flags pid pats) = RET_ERROR"
  by (simp add: scan_proc_def case_prod_beta)

lemma scan_proc_exe_not_stale:
  "fst (proc_has_replaced_exe env flags pid pats) = 1 \<Longrightarrow>
   fst (scan_proc env flags pid pats) = fst (proc_maps_replaced_files env flags pid pats)"
  by (simp add: scan_proc_def RET_ERROR_def case_prod_beta)

text \<open>
  Claim C3, as the source has it. With listed processes the status is
  \<^verbatim>\<open>EXIT_FAILURE\<close> exactly when \<open>scan_proc\<close> returned a negative result for one of them, and
  the output is the output of all of them in order: an error on one process does not
  stop the scan of the others. The same holds for the loop of the full scan over the
  non-kernel processes of the directory entries it reads. The full scan also returns
  \<^verbatim>\<open>EXIT_FAILURE\<close>, before any process is classified, when \<^verbatim>\<open>/proc\<close> cannot be opened or
  lists no process identifier. \<open>scan_proc\<close> returns the error result when the
  executable check does, and the result of the mapped-files check when the
  executable check reports not stale.
\<close>

theorem C3_aggregate_status:
  "fst (scan_procs env flags pids pats) =
     (if list_ex (\<lambda>pid. fst (scan_proc env flags pid pats) < 0) pids
      then EXIT_FAILURE else EXIT_SUCCESS)
   \<and> snd (scan_procs env flags pids pats) =
       concat (map (\<lambda>pid. snd (scan_proc env flags pid pats)) pids)
   \<and> fst (scan_all_loop env flags pats dir st) =
       (if list_ex (\<lambda>pid. fst (scan_proc env flags pid pats) < 0)
             (filter (\<lambda>pid. \<not> is_kernel_proc env pid) (dir_pids dir))
        then EXIT_FAILURE else st)
   \<and> snd (scan_all_loop env flags pats dir st) =
       concat (map (\<lambda>pid. snd (scan_proc env flags pid pats))
                 (filter (\<lambda>pid. \<not> is_kernel_proc env pid) (dir_pids dir)))
   \<and> scan_all_procs env flags pats =
       (case opendir_proc env of
          None \<Rightarrow> (EXIT_FAILURE, [])
        | Some d \<Rightarrow>
            (case dir_pids d of
               [] \<Rightarrow> (EXIT_FAILURE, [])
             | first # others \<Rightarrow>
                 scan_all_loop env flags pats (snd (next_pid d)) EXIT_SUCCESS))
   \<and> (fst (proc_has_replaced_exe env flags pid pats) = RET_ERROR \<longrightarrow>
        fst (scan_proc env flags pid pats) = RET_ERROR)
   \<and> (fst (proc_has_replaced_exe env flags pid' pats) = 1 \<longrightarrow>
        fst (scan_proc env flags pid' pats) =
          fst (proc_maps_replaced_files env flags pid' pats))"
  using scan_all_procs_unfold [of env flags pats]
  by (simp add: scan_procs_def scan_procs_loop_status scan_procs_loop_output
      scan_all_loop_status scan_all_loop_output scan_proc_exe_error scan_proc_exe_not_stale)

theorem C3_aggregate_status_witness:
  "fst (proc_has_replaced_exe env_exe_unreadable quiet 2 []) = RET_ERROR
   \<and> fst (scan_proc env_exe_unreadable quiet 2 []) = RET_ERROR
   \<and> fst (proc_has_replaced_exe env_exe_unreadable quiet 3 []) = 1
   \<and> fst (scan_proc env_exe_unreadable quiet 3 []) = 1
   \<and> scan_procs env_exe_unreadable quiet [2, 1] [] = (EXIT_FAILURE, [''1'' @ [NL]])"
  using C3_aggregate_status [where env = env_exe_unreadable and flags = quiet
      and pids = "[2, 1]" and pats = "[]" and pid = 2 and pid' = 3 and dir = "[]" and st = 0]
  by (simp add: scan_proc_def proc_maps_replaced_files_def
      proc_has_replaced_exe_def resolve_link_def proc_exists_def
      env_exe_unreadable_def env_init_replaced_def env_none_def
      quiet_def path_defs char_defs const_defs str_chomp_def cmp_files_def mmap_def prod_eq_iff)

text \<open>
  Claim C3 as stated makes the status \<^verbatim>\<open>EXIT_FAILURE\<close> only when the classification of
  a process produced an error, and always then. On the source a full scan that cannot
  open \<^verbatim>\<open>/proc\<close>, or finds no process identifier in it, classifies no process and
  returns \<^verbatim>\<open>EXIT_FAILURE\<close>. In the other direction, the case the theorem above leaves
  open: in verbose mode \<open>scan_proc\<close> returns \<open>res1 * res2\<close>, which is 0 when the
  executable check reports stale (\<open>res1 = 0\<close>) and the mapped-files check fails
  (\<open>res2 = -1\<close>); the status of the scan is then \<^verbatim>\<open>EXIT_SUCCESS\<close>.
\<close>

theorem C3_failure_without_process_error:
  "opendir_proc env_none = None
   \<and> scan_all_procs env_none quiet [] = (EXIT_FAILURE, [])
   \<and> dir_pids [''.'', ''..''] = []
   \<and> scan_all_procs (env_none \<lparr>opendir_proc := Some [''.'', ''..'']\<rparr>) quiet []
       = (EXIT_FAILURE, [])
   \<and> EXIT_FAILURE \<noteq> EXIT_SUCCESS
   \<and> proc_has_replaced_exe env_maps_unreadable verbose 1 []
       = (0, [print_pid_file 1 ''/sbin/init''])
   \<and> proc_maps_replaced_files env_maps_unreadable verbose 1 [] = (RET_ERROR, [])
   \<and> scan_proc env_maps_unreadable verbose 1 [] = (0, [print_pid_file 1 ''/sbin/init''])
   \<and> fst (scan_procs env_maps_unreadable verbose [1] []) = EXIT_SUCCESS"
  by (simp add: scan_all_procs_def dir_pids_def str_to_uint_def
      scan_procs_def scan_proc_def proc_maps_replaced_files_def
      proc_has_replaced_exe_def resolve_link_def proc_exists_def
      env_maps_unreadable_def env_init_replaced_def env_none_def quiet_def
      verbose_def path_defs char_defs const_defs str_chomp_def cmp_files_def mmap_def)

subsection \<open>The memory-map parser\<close>

lemma maps_loop_step:
  "maps_loop env flags pid pats (buf # lines) res prev =
     (case parse_line buf of
        None \<Rightarrow> maps_loop env flags pid pats lines res prev
      | Some m \<Rightarrow>
          if filename m = prev then maps_loop env flags pid pats lines res prev
          else if inode m = 0 then maps_loop env flags pid pats lines res (filename m)
          else if dev_major m = 0 then maps_loop env flags pid pats lines res (filename m)
          else if selected pats (filename m) then
            (if cmp_files env (filename m) (PROC_MAP_FILES_PATH pid (m_start m) (m_end m)) = 0
             then maps_loop env flags pid pats lines res (filename m)
             else if FLAG_VERBOSE flags
             then (case maps_loop env flags pid pats lines 0 (filename m) of
                     (r, out) \<Rightarrow> (r, print_pid_file pid (filename m) # out))
             else (0, [print_pid pid]))
          else maps_loop env flags pid pats lines res (filename m))"
proof (cases "str_chomp buf ('' (deleted)'' @ [NL])")
  case (Pair ok buf1)
  show ?thesis
  proof (cases ok)
    case False
    with Pair show ?thesis by (simp add: parse_line_def)
  next
    case True
    show ?thesis
    proof (cases "sscanf_maps (snd (str_chomp buf1 ''.apk-new''))")
      case None
      with Pair True show ?thesis by (simp add: parse_line_def)
    next
      case (Some m)
      with Pair True show ?thesis by (simp add: parse_line_def selected_def)
    qed
  qed
qed

lemma parse_stream_Cons:
  "parse_stream (buf # lines) =
     (case parse_line buf of None \<Rightarrow> parse_stream lines | Some m \<Rightarrow> m # parse_stream lines)"
  by (simp add: parse_stream_def split: option.splits)

lemma maps_loop_factor:
  "maps_loop env flags pid pats lines res prev =
     classify_entries env flags pid pats (dedup_adjacent prev (parse_stream lines)) res"
proof (induction lines arbitrary: res prev)
  case Nil
  show ?case by (simp add: parse_stream_def)
next
  case (Cons buf lines)
  show ?case
  proof (cases "parse_line buf")
    case None
    then show ?thesis by (simp only: maps_loop_step parse_stream_Cons Cons.IH) simp
  next
    case (Some m)
    then show ?thesis by (simp only: maps_loop_step parse_stream_Cons Cons.IH) simp
  qed
qed

lemma parse_libfoo: "parse_line (libfoo_line ''r--p'') = Some libfoo_entry"
  "parse_line (libfoo_line ''r-xp'') = Some libfoo_entry"
  "parse_line (libfoo_line ''rw-p'') = Some libfoo_entry"
  by (simp_all add: parse_line_def libfoo_line_def libfoo_entry_def str_chomp_def sscanf_maps_def
       scan_num_def scan_lit_def scan_chars_def scan_set_def char_defs const_defs)

text \<open>
  Two empty files have the same content, yet the process that maps one of them is
  reported: the result \<^verbatim>\<open>RET_ERROR\<close> of the comparison is not 0.
\<close>

lemma empty_identical_files_reported:
  "cmp_files env_libfoo_empty ''/usr/lib/libfoo.so.1''
     ''/proc/7/map_files/7f0000000000-7f0000021000'' = RET_ERROR
   \<and> maps_loop env_libfoo_empty quiet 7 [] [libfoo_line ''r--p''] 1 [] = (0, [print_pid 7])"
  by (simp only: maps_loop_step parse_libfoo(1))
     (simp add: selected_def libfoo_entry_def env_libfoo_empty_def env_libfoo_def env_none_def
        quiet_def cmp_files_def mmap_def path_defs char_defs const_defs)

text \<open>
  Claim C6. The loop of \<open>proc_maps_replaced_files\<close> classifies the stream of parsed
  entries after order-adjacent deduplication: each entry is compared with the filename
  of the entry just before it in the stream (the one kept last), never with a set of
  the filenames seen so far, and is dropped when the two are equal. Three consecutive
  lines for \<^verbatim>\<open>/usr/lib/libfoo.so.1 (deleted)\<close> that differ in the permission field only
  yield exactly one entry.
\<close>

theorem C6_adjacent_dedup:
  "maps_loop env flags pid pats lines res prev =
     classify_entries env flags pid pats (dedup_adjacent prev (parse_stream lines)) res
   \<and> dedup_adjacent prev (m # ms) =
       (if filename m = prev then [] else [m]) @ dedup_adjacent (filename m) ms
   \<and> dedup_adjacent []
       (parse_stream [libfoo_line ''r--p'', libfoo_line ''r-xp'', libfoo_line ''rw-p''])
       = [libfoo_entry]"
proof (intro conjI)
  show "maps_loop env flags pid pats lines res prev =
     classify_entries env flags pid pats (dedup_adjacent prev (parse_stream lines)) res"
    by (rule maps_loop_factor)
  show "dedup_adjacent prev (m # ms) =
       (if filename m = prev then [] else [m]) @ dedup_adjacent (filename m) ms"
    by simp
  show "dedup_adjacent []
       (parse_stream [libfoo_line ''r--p'', libfoo_line ''r-xp'', libfoo_line ''rw-p''])
       = [libfoo_entry]"
    by (simp add: parse_stream_def parse_libfoo) (simp add: libfoo_entry_def)
qed

text \<open>In verbose mode the replaced library of process 7 is printed once.\<close>

theorem C6_adjacent_dedup_witness:
  "proc_maps_replaced_files env_libfoo verbose 7 [] =
     (0, [print_pid_file 7 ''/usr/lib/libfoo.so.1''])"
  using C6_adjacent_dedup [where env = env_libfoo and flags = verbose and pid = 7 and pats = "[]"
      and lines = "[libfoo_line ''r--p'', libfoo_line ''r-xp'', libfoo_line ''rw-p'']"
      and res = 1 and prev = "[]" and m = libfoo_entry and ms = "[]"]
  by (simp add: proc_maps_replaced_files_def env_libfoo_def env_none_def
        PROC_MAPS_PATH_def fmt_u_def dec_str.simps digit_char_def)
     (simp add: libfoo_entry_def selected_def cmp_files_def mmap_def verbose_def
        PROC_MAP_FILES_PATH_def fmt_u_def dec_str.simps hex_str.simps digit_char_def)

subsection \<open>The staging suffix\<close>

lemma str_chomp_append2: "str_chomp (s @ a @ b) b = (True, s @ a)"
  using str_chomp_append [of "s @ a" b] by simp

lemma str_chomp_not_ends: "\<not> ends_with s sfx \<Longrightarrow> str_chomp s sfx = (False, s)"
  by (auto simp: str_chomp_def ends_with_def Let_def split: if_splits)

lemma PROC_ROOT_PATH_nonempty: "PROC_ROOT_PATH pid name \<noteq> []"
  by (simp add: PROC_ROOT_PATH_def)

lemma exe_after_chomp:
  assumes "readlink env (PROC_EXE_PATH pid) = Inr target" and "length target < PATH_MAX"
    and "str_chomp target '' (deleted)'' = (True, stripped)"
  shows "proc_has_replaced_exe env flags pid pats =
           exe_verdict env flags pid pats (snd (str_chomp stripped ''.apk-new''))"
proof -
  from assms(1,2) have "resolve_link env (PROC_EXE_PATH pid) PATH_MAX = Inr target"
    by (simp add: resolve_link_def Let_def)
  with assms(3) show ?thesis
    by (auto simp: proc_has_replaced_exe_def exe_verdict_def selected_def Let_def
        PROC_ROOT_PATH_nonempty)
qed

lemma scan_num_rest: "scan_num P b s = Some (v, r) \<Longrightarrow> \<exists>pre. s = pre @ r"
proof -
  assume "scan_num P b s = Some (v, r)"
  then have r: "r = dropWhile P (dropWhile isspace s)"
    by (auto simp: scan_num_def Let_def split: if_splits)
  have "s = takeWhile isspace s @ takeWhile P (dropWhile isspace s) @ r"
    unfolding r by simp
  then show ?thesis by (metis append.assoc)
qed

lemma scan_lit_rest: "scan_lit c s = Some r \<Longrightarrow> \<exists>pre. s = pre @ r"
  by (auto simp: scan_lit_def split: list.splits if_splits)

lemma scan_chars_rest: "scan_chars n s = Some r \<Longrightarrow> \<exists>pre. s = pre @ r"
  by (auto simp: scan_chars_def split: if_splits intro: exI [of _ "take n s"])

lemma scan_set_rest: "scan_set P s = Some (t, r) \<Longrightarrow> \<exists>pre. s = pre @ r"
  by (auto simp: scan_set_def Let_def split: if_splits intro: exI [of _ "takeWhile P s"])

lemma skip_rest: "\<exists>pre. s = pre @ dropWhile P s"
  by (rule exI [of _ "takeWhile P s"]) simp

lemma rest_trans: "\<exists>pre. s = pre @ r \<Longrightarrow> \<exists>pre. r = pre @ q \<Longrightarrow> \<exists>pre. s = pre @ q"
  by (metis append.assoc)

lemma sscanf_maps_rest:
  assumes "sscanf_maps str = Some m"
  shows "\<exists>s10. (\<exists>pre. str = pre @ s10)
            \<and> filename m = takeWhile (\<lambda>c. c \<noteq> NL) (take PATH_MAX s10)"
proof -
  from assms obtain a s1 s2 b s3 s4 off s5 major s6 s7 minor s8 ino s9 ws s10 name s11 where
    h: "scan_num isxdigit 16 str = Some (a, s1)"
       "scan_lit CHR ''-'' s1 = Some s2"
       "scan_num isxdigit 16 s2 = Some (b, s3)"
       "scan_chars 4 (dropWhile isspace s3) = Some s4"
       "scan_num isxdigit 16 (dropWhile isspace s4) = Some (off, s5)"
       "scan_num isxdigit 16 (dropWhile isspace s5) = Some (major, s6)"
       "scan_lit CHR '':'' s6 = Some s7"
       "scan_num isxdigit 16 s7 = Some (minor, s8)"
       "scan_num isdigit 10 (dropWhile isspace s8) = Some (ino, s9)"
       "scan_set (\<lambda>c. c \<in> set [CHR '' '', TAB]) s9 = Some (ws, s10)"
       "scan_set (\<lambda>c. c \<noteq> NL) (take PATH_MAX s10) = Some (name, s11)"
       "filename m = name"
    by (auto simp: sscanf_maps_def Option.bind_eq_Some_conv)
  from scan_num_rest [OF h(1)] obtain p1 where 1: "str = p1 @ s1" by blast
  from scan_lit_rest [OF h(2)] obtain p2 where 2: "s1 = p2 @ s2" by blast
  from scan_num_rest [OF h(3)] obtain p3 where 3: "s2 = p3 @ s3" by blast
  from scan_chars_rest [OF h(4)] obtain p4 where 4: "dropWhile isspace s3 = p4 @ s4" by blast
  from scan_num_rest [OF h(5)] obtain p5 where 5: "dropWhile isspace s4 = p5 @ s5" by blast
  from scan_num_rest [OF h(6)] obtain p6 where 6: "dropWhile isspace s5 = p6 @ s6" by blast
  from scan_lit_rest [OF h(7)] obtain p7 where 7: "s6 = p7 @ s7" by blast
  from scan_num_rest [OF h(8)] obtain p8 where 8: "s7 = p8 @ s8" by blast
  from scan_num_rest [OF h(9)] obtain p9 where 9: "dropWhile isspace s8 = p9 @ s9" by blast
  from scan_set_rest [OF h(10)] obtain p10 where 10: "s9 = p10 @ s10" by blast
  have w: "\<And>x. x = takeWhile isspace x @ dropWhile isspace x" by simp
  have "s3 = (takeWhile isspace s3 @ p4) @ s4" using w [of s3] 4 by simp
  moreover have "s4 = (takeWhile isspace s4 @ p5) @ s5" using w [of s4] 5 by simp
  moreover have "s5 = (takeWhile isspace s5 @ p6) @ s6" using w [of s5] 6 by simp
  moreover have "s8 = (takeWhile isspace s8 @ p9) @ s9" using w [of s8] 9 by simp
  ultimately have "\<exists>pre. str = pre @ s10"
    using 1 2 3 7 8 10 by (metis append.assoc)
  moreover from h(11,12) have "filename m = takeWhile (\<lambda>c. c \<noteq> NL) (take PATH_MAX s10)"
    by (auto simp: scan_set_def Let_def split: if_splits)
  ultimately show ?thesis by blast
qed

lemma sscanf_maps_filename_tail:
  assumes "sscanf_maps str = Some m" and "NL \<notin> set str" and "length str \<le> PATH_MAX"
  shows "\<exists>pre. str = pre @ filename m"
proof -
  from sscanf_maps_rest [OF assms(1)] obtain s10 pre where
    t: "str = pre @ s10" and f: "filename m = takeWhile (\<lambda>c. c \<noteq> NL) (take PATH_MAX s10)"
    by blast
  from t assms(2,3) have "NL \<notin> set s10" and "length s10 \<le> PATH_MAX" by auto
  then have "takeWhile (\<lambda>c. c \<noteq> NL) (take PATH_MAX s10) = s10"
    by (auto simp: takeWhile_eq_all_conv)
  with t f show ?thesis by auto
qed

lemma parse_line_staged:
  "parse_line (body @ ''.apk-new'' @ '' (deleted)'' @ [NL]) = sscanf_maps body"
proof -
  have "str_chomp (body @ ''.apk-new'' @ ('' (deleted)'' @ [NL])) ('' (deleted)'' @ [NL])
          = (True, body @ ''.apk-new'')"
    by (rule str_chomp_append2)
  moreover have "str_chomp (body @ ''.apk-new'') ''.apk-new'' = (True, body)"
    by (rule str_chomp_append)
  ultimately show ?thesis by (simp add: parse_line_def)
qed

lemma parse_line_plain:
  assumes "\<not> ends_with body ''.apk-new''"
  shows "parse_line (body @ '' (deleted)'' @ [NL]) = sscanf_maps body"
proof -
  have "str_chomp (body @ ('' (deleted)'' @ [NL])) ('' (deleted)'' @ [NL]) = (True, body)"
    by (rule str_chomp_append)
  with str_chomp_not_ends [OF assms] show ?thesis by (simp add: parse_line_def)
qed


text \<open>
  Claim C7. For the executable link: a target that ends with the staging suffix and
  then the deletion marker is judged under its name without both, and a target that
  ends with the marker only is judged under its name without the marker; the verdict
  (\<open>exe_verdict\<close>) applies the filter rules to that name and compares the running
  image with the file of that name under the root of the process. For a line of the
  mapping stream: the marker (with the newline) is removed first and one staging
  suffix after it, the fields are read from what is left, the filename read is the
  end of that text, and the loop applies the rules and the comparison to the entries
  so parsed. The staging name itself is never matched or opened.
\<close>

theorem C7_staging_suffix_stripped:
  "(readlink env (PROC_EXE_PATH pid) = Inr (name @ ''.apk-new'' @ '' (deleted)'')
      \<and> length (name @ ''.apk-new'' @ '' (deleted)'') < PATH_MAX \<longrightarrow>
     proc_has_replaced_exe env flags pid pats = exe_verdict env flags pid pats name)
   \<and> (readlink env' (PROC_EXE_PATH pid') = Inr (name' @ '' (deleted)'')
      \<and> length (name' @ '' (deleted)'') < PATH_MAX \<and> \<not> ends_with name' ''.apk-new'' \<longrightarrow>
     proc_has_replaced_exe env' flags' pid' pats' = exe_verdict env' flags' pid' pats' name')
   \<and> parse_line (body @ ''.apk-new'' @ '' (deleted)'' @ [NL]) = sscanf_maps body
   \<and> (\<not> ends_with body' ''.apk-new'' \<longrightarrow>
        parse_line (body' @ '' (deleted)'' @ [NL]) = sscanf_maps body')
   \<and> (sscanf_maps str = Some m \<and> NL \<notin> set str \<and> length str \<le> PATH_MAX \<longrightarrow>
        (\<exists>pre. str = pre @ filename m))
   \<and> maps_loop env flags pid pats lines res prev =
       classify_entries env flags pid pats (dedup_adjacent prev (parse_stream lines)) res"
proof (intro conjI impI)
  assume a: "readlink env (PROC_EXE_PATH pid) = Inr (name @ ''.apk-new'' @ '' (deleted)'')
      \<and> length (name @ ''.apk-new'' @ '' (deleted)'') < PATH_MAX"
  have "str_chomp (name @ ''.apk-new'' @ '' (deleted)'') '' (deleted)''
          = (True, name @ ''.apk-new'')"
    by (rule str_chomp_append2)
  from exe_after_chomp [OF conjunct1 [OF a] conjunct2 [OF a] this]
  show "proc_has_replaced_exe env flags pid pats = exe_verdict env flags pid pats name"
    by (simp only: str_chomp_append snd_conv)
next
  assume a: "readlink env' (PROC_EXE_PATH pid') = Inr (name' @ '' (deleted)'')
      \<and> length (name' @ '' (deleted)'') < PATH_MAX \<and> \<not> ends_with name' ''.apk-new''"
  then have n: "str_chomp name' ''.apk-new'' = (False, name')"
    by (simp add: str_chomp_not_ends)
  have "str_chomp (name' @ '' (deleted)'') '' (deleted)'' = (True, name')"
    by (rule str_chomp_append)
  from exe_after_chomp [OF conjunct1 [OF a] conjunct1 [OF conjunct2 [OF a]] this]
  show "proc_has_replaced_exe env' flags' pid' pats' = exe_verdict env' flags' pid' pats' name'"
    by (simp only: n snd_conv)
next
  show "parse_line (body @ ''.apk-new'' @ '' (deleted)'' @ [NL]) = sscanf_maps body"
    by (rule parse_line_staged)
next
  assume "\<not> ends_with body' ''.apk-new''"
  then show "parse_line (body' @ '' (deleted)'' @ [NL]) = sscanf_maps body'"
    by (rule parse_line_plain)
next
  assume "sscanf_maps str = Some m \<and> NL \<notin> set str \<and> length str \<le> PATH_MAX"
  then show "\<exists>pre. str = pre @ filename m"
    using sscanf_maps_filename_tail by blast
next
  show "maps_loop env flags pid pats lines res prev =
       classify_entries env flags pid pats (dedup_adjacent prev (parse_stream lines)) res"
    by (rule maps_loop_factor)
qed

lemma parse_libbar:
  "sscanf_maps ''7f0000000000-7f0000021000 r-xp 00000000 08:01 77 /usr/lib/libbar.so.2''
     = Some \<lparr>m_start = 139637976727552, m_end = 139637976862720, dev_major = 8, inode = 77,
             filename = ''/usr/lib/libbar.so.2''\<rparr>"
  by (simp add: sscanf_maps_def scan_num_def scan_lit_def scan_chars_def scan_set_def
      char_defs const_defs)

text \<open>
  Process 8 of \<open>env_staged\<close>: the rules select the final names only and files exist at
  the final names only, identical to the running ones; the process is not stale.
\<close>

theorem C7_staging_suffix_stripped_witness:
  "readlink env_staged (PROC_EXE_PATH 8) = Inr (''/usr/bin/foo'' @ ''.apk-new'' @ '' (deleted)'')
   \<and> \<not> selected [''/usr/bin/foo'', ''/usr/lib/libbar.so.2''] ''/usr/bin/foo.apk-new''
   \<and> open_ro env_staged (PROC_ROOT_PATH 8 ''/usr/bin/foo.apk-new'') = None
   \<and> proc_has_replaced_exe env_staged quiet 8 [''/usr/bin/foo'', ''/usr/lib/libbar.so.2'']
       = (1, [])
   \<and> readlink env_init_replaced (PROC_EXE_PATH 1) = Inr (''/sbin/init'' @ '' (deleted)'')
   \<and> \<not> ends_with ''/sbin/init'' ''.apk-new''
   \<and> proc_has_replaced_exe env_init_replaced quiet 1 [] = (0, [print_pid 1])
   \<and> parse_line (''7f0000000000-7f0000021000 r-xp 00000000 08:01 77 /usr/lib/libbar.so.2''
                  @ ''.apk-new'' @ '' (deleted)'' @ [NL])
       = Some \<lparr>m_start = 139637976727552, m_end = 139637976862720, dev_major = 8, inode = 77,
               filename = ''/usr/lib/libbar.so.2''\<rparr>
   \<and> proc_maps_replaced_files env_staged quiet 8 [''/usr/bin/foo'', ''/usr/lib/libbar.so.2'']
       = (1, [])
   \<and> length (''/usr/bin/foo'' @ ''.apk-new'' @ '' (deleted)'') < PATH_MAX
   \<and> length (''/sbin/init'' @ '' (deleted)'') < PATH_MAX
   \<and> sscanf_maps ''7f0000000000-7f0000021000 r-xp 00000000 08:01 77 /usr/lib/libbar.so.2''
       = Some \<lparr>m_start = 139637976727552, m_end = 139637976862720, dev_major = 8, inode = 77,
               filename = ''/usr/lib/libbar.so.2''\<rparr>
   \<and> NL \<notin> set ''7f0000000000-7f0000021000 r-xp 00000000 08:01 77 /usr/lib/libbar.so.2''
   \<and> \<not> ends_with ''7f0000000000-7f0000021000 r-xp 00000000 08:01 77 /usr/lib/libbar.so.2''
         ''.apk-new''"
proof -
  let ?b = "''7f0000000000-7f0000021000 r-xp 00000000 08:01 77 /usr/lib/libbar.so.2''"
  let ?line = "?b @ ''.apk-new'' @ '' (deleted)'' @ [NL]"
  let ?e = "\<lparr>m_start = 139637976727552, m_end = 139637976862720, dev_major = 8, inode = 77,
             filename = ''/usr/lib/libbar.so.2''\<rparr>"
  let ?P = "[''/usr/bin/foo'', ''/usr/lib/libbar.so.2'']"
  note T = C7_staging_suffix_stripped [where env = env_staged and pid = 8
      and name = "''/usr/bin/foo''" and flags = quiet and pats = ?P
      and env' = env_init_replaced and pid' = 1 and name' = "''/sbin/init''" and flags' = quiet
      and pats' = "[]" and body = ?b and body' = ?b and str = ?b and m = ?e
      and lines = "[?line]" and res = 1 and prev = "[]"]
  have h1: "readlink env_staged (PROC_EXE_PATH 8)
              = Inr (''/usr/bin/foo'' @ ''.apk-new'' @ '' (deleted)'')"
    by (simp add: env_staged_def env_none_def PROC_EXE_PATH_def fmt_u_def dec_str.simps
        digit_char_def)
  have h2: "length (''/usr/bin/foo'' @ ''.apk-new'' @ '' (deleted)'') < PATH_MAX"
    by (simp add: PATH_MAX_def)
  have h3: "readlink env_init_replaced (PROC_EXE_PATH 1) = Inr (''/sbin/init'' @ '' (deleted)'')"
    by (simp add: env_init_replaced_def env_none_def PROC_EXE_PATH_def fmt_u_def dec_str.simps
        digit_char_def)
  have h4: "length (''/sbin/init'' @ '' (deleted)'') < PATH_MAX"
    by (simp add: PATH_MAX_def)
  have h5: "\<not> ends_with ''/sbin/init'' ''.apk-new''"
    by (simp add: ends_with_def)
  have h6: "fopen_r env_staged (PROC_MAPS_PATH 8) = Inr [?line]"
    by (simp add: env_staged_def env_none_def PROC_MAPS_PATH_def fmt_u_def dec_str.simps
        digit_char_def)
  from T h1 h2 have f1: "proc_has_replaced_exe env_staged quiet 8 ?P
      = exe_verdict env_staged quiet 8 ?P ''/usr/bin/foo''"
    by blast
  from T h3 h4 h5 have f2: "proc_has_replaced_exe env_init_replaced quiet 1 []
      = exe_verdict env_init_replaced quiet 1 [] ''/sbin/init''"
    by blast
  from T have f3: "parse_line ?line = sscanf_maps ?b"
    by blast
  from T have f6: "maps_loop env_staged quiet 8 ?P [?line] 1 []
      = classify_entries env_staged quiet 8 ?P (dedup_adjacent [] (parse_stream [?line])) 1"
    by blast
  have v1: "exe_verdict env_staged quiet 8 ?P ''/usr/bin/foo'' = (1, [])"
    by (simp add: exe_verdict_def selected_def env_staged_def env_none_def quiet_def
        cmp_files_def mmap_def path_defs char_defs const_defs)
  have v2: "exe_verdict env_init_replaced quiet 1 [] ''/sbin/init'' = (0, [print_pid 1])"
    by (simp add: exe_verdict_def selected_def env_init_replaced_def env_none_def quiet_def
        cmp_files_def mmap_def path_defs char_defs const_defs)
  have v3: "parse_line ?line = Some ?e"
    by (simp only: f3 parse_libbar)
  have v4: "classify_entries env_staged quiet 8 ?P (dedup_adjacent [] [?e]) 1 = (1, [])"
    by (simp add: selected_def env_staged_def env_none_def quiet_def
        cmp_files_def mmap_def path_defs char_defs const_defs)
  have v5: "parse_stream [?line] = [?e]"
    by (simp only: parse_stream_Cons v3 option.case) (simp add: parse_stream_def)
  have c2: "\<not> selected ?P ''/usr/bin/foo.apk-new''"
    by (simp add: selected_def BACKSLASH_def)
  have c3: "open_ro env_staged (PROC_ROOT_PATH 8 ''/usr/bin/foo.apk-new'') = None"
    by (simp add: env_staged_def env_none_def PROC_ROOT_PATH_def fmt_u_def dec_str.simps
        digit_char_def)
  have c4: "proc_has_replaced_exe env_staged quiet 8 ?P = (1, [])"
    by (simp only: f1 v1)
  have c7: "proc_has_replaced_exe env_init_replaced quiet 1 [] = (0, [print_pid 1])"
    by (simp only: f2 v2)
  have c9: "proc_maps_replaced_files env_staged quiet 8 ?P = (1, [])"
    by (simp only: proc_maps_replaced_files_def h6 sum.case f6 v5 v4)
  have h7: "NL \<notin> set ?b"
    by (simp add: NL_def)
  have h8: "\<not> ends_with ?b ''.apk-new''"
    by (simp add: ends_with_def)
  from h1 c2 c3 c4 h3 h5 c7 v3 c9 h2 h4 parse_libbar h7 h8 show ?thesis
    by (intro conjI)
qed

subsection \<open>A comparison that fails\<close>

text \<open>
  When one of the two files cannot be opened, stat'ed or mapped, \<open>cmp_files\<close> does not
  return 0: it returns \<^verbatim>\<open>RET_ERROR\<close>, or 1 when both sizes are known and differ (the
  files are then not mapped at all).
\<close>

lemma cmp_files_open_fails:
  "open_ro env a = None \<or> open_ro env b = None \<Longrightarrow> cmp_files env a b = RET_ERROR"
  by (auto simp: cmp_files_def split: option.splits)

lemma cmp_files_fstat_fails:
  "open_ro env a = Some fa \<Longrightarrow> open_ro env b = Some fb
   \<Longrightarrow> st_size fa = None \<or> st_size fb = None \<Longrightarrow> cmp_files env a b = RET_ERROR"
  by (auto simp: cmp_files_def split: option.splits)

lemma cmp_files_mmap_fails:
  "open_ro env a = Some fa \<Longrightarrow> open_ro env b = Some fb
   \<Longrightarrow> st_size fa = Some n \<Longrightarrow> st_size fb = Some n
   \<Longrightarrow> mmap fa n = None \<or> mmap fb n = None \<Longrightarrow> cmp_files env a b = RET_ERROR"
  by (auto simp: cmp_files_def split: option.splits)

lemma cmp_files_cannot_compare:
  "cannot_compare env a b \<Longrightarrow> cmp_files env a b = RET_ERROR \<or> cmp_files env a b = 1"
  by (auto simp: cannot_compare_def unusable_def cmp_files_def split: option.splits if_splits)

lemma cmp_files_cannot_compare_nonzero: "cannot_compare env a b \<Longrightarrow> cmp_files env a b \<noteq> 0"
  using cmp_files_cannot_compare [of env a b] by (auto simp: RET_ERROR_def)

lemma exe_reported:
  assumes "readlink env (PROC_EXE_PATH pid) = Inr target" and "length target < PATH_MAX"
    and "str_chomp target '' (deleted)'' = (True, stripped)"
    and "selected pats (snd (str_chomp stripped ''.apk-new''))"
    and "cmp_files env (PROC_EXE_PATH pid)
           (PROC_ROOT_PATH pid (snd (str_chomp stripped ''.apk-new''))) \<noteq> 0"
  shows "proc_has_replaced_exe env flags pid pats =
       (0, [if FLAG_VERBOSE flags
            then fmt_pid pid @ [TAB] @ snd (str_chomp stripped ''.apk-new'') @ [NL]
            else fmt_pid pid @ [NL]])"
  using exe_after_chomp [OF assms(1-3)] assms(4,5)
  by (simp add: exe_verdict_def print_pid_def print_pid_file_def)

lemma maps_line_reported:
  assumes "parse_line buf = Some m" and "filename m \<noteq> prev" and "inode m \<noteq> 0"
    and "dev_major m \<noteq> 0" and "selected pats (filename m)"
    and "cmp_files env (filename m) (PROC_MAP_FILES_PATH pid (m_start m) (m_end m)) \<noteq> 0"
  shows "maps_loop env flags pid pats (buf # lines) res prev =
       (if FLAG_VERBOSE flags
        then (fst (maps_loop env flags pid pats lines 0 (filename m)),
              (fmt_pid pid @ [TAB] @ filename m @ [NL])
                # snd (maps_loop env flags pid pats lines 0 (filename m)))
        else (0, [fmt_pid pid @ [NL]]))"
  using assms
  by (simp only: maps_loop_step) (simp add: case_prod_beta print_pid_def print_pid_file_def)

text \<open>
  Claim C10. When the comparison itself fails, because one of the two files cannot be
  opened, stat'ed or mapped, \<open>cmp_files\<close> returns \<^verbatim>\<open>RET_ERROR\<close> (or 1, when both sizes are
  known and differ), never 0. Both callers test \<open>cmp_files ... = 0\<close> and nothing else,
  so every other result has the same effect, the error result that of the result 1:
  the executable check returns 0 and prints the line \<^verbatim>\<open><pid>\n\<close>, in verbose mode
  \<^verbatim>\<open><pid>\t<path>\n\<close>; the loop over the mapping stream prints \<^verbatim>\<open><pid>\n\<close> and stops with
  0, in verbose mode prints \<^verbatim>\<open><pid>\t<path>\n\<close> and goes on with the next line. The file is
  not skipped and the result is not the error result.
\<close>

theorem C10_failed_comparison_is_stale:
  "(open_ro env a = None \<or> open_ro env b = None \<longrightarrow> cmp_files env a b = RET_ERROR)
   \<and> (open_ro env a = Some fa \<and> open_ro env b = Some fb
        \<and> (st_size fa = None \<or> st_size fb = None) \<longrightarrow> cmp_files env a b = RET_ERROR)
   \<and> (open_ro env a = Some fa \<and> open_ro env b = Some fb
        \<and> st_size fa = Some n \<and> st_size fb = Some n
        \<and> (mmap fa n = None \<or> mmap fb n = None) \<longrightarrow> cmp_files env a b = RET_ERROR)
   \<and> (cannot_compare env a b \<longrightarrow>
        (cmp_files env a b = RET_ERROR \<or> cmp_files env a b = 1) \<and> cmp_files env a b \<noteq> 0)
   \<and> (readlink env (PROC_EXE_PATH pid) = Inr target \<and> length target < PATH_MAX
      \<and> str_chomp target '' (deleted)'' = (True, stripped)
      \<and> selected pats (snd (str_chomp stripped ''.apk-new''))
      \<and> (cannot_compare env (PROC_EXE_PATH pid)
            (PROC_ROOT_PATH pid (snd (str_chomp stripped ''.apk-new'')))
          \<or> cmp_files env (PROC_EXE_PATH pid)
               (PROC_ROOT_PATH pid (snd (str_chomp stripped ''.apk-new''))) \<noteq> 0) \<longrightarrow>
     proc_has_replaced_exe env flags pid pats =
       (0, [if FLAG_VERBOSE flags
            then fmt_pid pid @ [TAB] @ snd (str_chomp stripped ''.apk-new'') @ [NL]
            else fmt_pid pid @ [NL]]))
   \<and> (parse_line buf = Some m \<and> filename m \<noteq> prev \<and> inode m \<noteq> 0 \<and> dev_major m \<noteq> 0
      \<and> selected pats' (filename m)
      \<and> (cannot_compare env' (filename m) (PROC_MAP_FILES_PATH pid' (m_start m) (m_end m))
          \<or> cmp_files env' (filename m) (PROC_MAP_FILES_PATH pid' (m_start m) (m_end m)) \<noteq> 0)
      \<longrightarrow>
     maps_loop env' flags' pid' pats' (buf # lines) res prev =
       (if FLAG_VERBOSE flags'
        then (fst (maps_loop env' flags' pid' pats' lines 0 (filename m)),
              (fmt_pid pid' @ [TAB] @ filename m @ [NL])
                # snd (maps_loop env' flags' pid' pats' lines 0 (filename m)))
        else (0, [fmt_pid pid' @ [NL]])))"
proof (intro conjI impI)
  assume "open_ro env a = None \<or> open_ro env b = None"
  then show "cmp_files env a b = RET_ERROR" by (rule cmp_files_open_fails)
next
  assume "open_ro env a = Some fa \<and> open_ro env b = Some fb
        \<and> (st_size fa = None \<or> st_size fb = None)"
  then show "cmp_files env a b = RET_ERROR" using cmp_files_fstat_fails by blast
next
  assume "open_ro env a = Some fa \<and> open_ro env b = Some fb
        \<and> st_size fa = Some n \<and> st_size fb = Some n
        \<and> (mmap fa n = None \<or> mmap fb n = None)"
  then show "cmp_files env a b = RET_ERROR" using cmp_files_mmap_fails by blast
next
  assume "cannot_compare env a b"
  then show "cmp_files env a b = RET_ERROR \<or> cmp_files env a b = 1"
    by (rule cmp_files_cannot_compare)
next
  assume "cannot_compare env a b"
  then show "cmp_files env a b \<noteq> 0" by (rule cmp_files_cannot_compare_nonzero)
next
  assume h: "readlink env (PROC_EXE_PATH pid) = Inr target \<and> length target < PATH_MAX
      \<and> str_chomp target '' (deleted)'' = (True, stripped)
      \<and> selected pats (snd (str_chomp stripped ''.apk-new''))
      \<and> (cannot_compare env (PROC_EXE_PATH pid)
            (PROC_ROOT_PATH pid (snd (str_chomp stripped ''.apk-new'')))
          \<or> cmp_files env (PROC_EXE_PATH pid)
               (PROC_ROOT_PATH pid (snd (str_chomp stripped ''.apk-new''))) \<noteq> 0)"
  then have nz: "cmp_files env (PROC_EXE_PATH pid)
               (PROC_ROOT_PATH pid (snd (str_chomp stripped ''.apk-new''))) \<noteq> 0"
    using cmp_files_cannot_compare_nonzero by blast
  from h have h1: "readlink env (PROC_EXE_PATH pid) = Inr target"
    and h2: "length target < PATH_MAX"
    and h3: "str_chomp target '' (deleted)'' = (True, stripped)"
    and h4: "selected pats (snd (str_chomp stripped ''.apk-new''))"
    by simp_all
  show "proc_has_replaced_exe env flags pid pats =
       (0, [if FLAG_VERBOSE flags
            then fmt_pid pid @ [TAB] @ snd (str_chomp stripped ''.apk-new'') @ [NL]
            else fmt_pid pid @ [NL]])"
    by (rule exe_reported [OF h1 h2 h3 h4 nz])
next
  assume h: "parse_line buf = Some m \<and> filename m \<noteq> prev \<and> inode m \<noteq> 0 \<and> dev_major m \<noteq> 0
      \<and> selected pats' (filename m)
      \<and> (cannot_compare env' (filename m) (PROC_MAP_FILES_PATH pid' (m_start m) (m_end m))
          \<or> cmp_files env' (filename m) (PROC_MAP_FILES_PATH pid' (m_start m) (m_end m)) \<noteq> 0)"
  then have nz: "cmp_files env' (filename m) (PROC_MAP_FILES_PATH pid' (m_start m) (m_end m)) \<noteq> 0"
    using cmp_files_cannot_compare_nonzero by blast
  from h have h1: "parse_line buf = Some m" and h2: "filename m \<noteq> prev"
    and h3: "inode m \<noteq> 0" and h4: "dev_major m \<noteq> 0" and h5: "selected pats' (filename m)"
    by simp_all
  show "maps_loop env' flags' pid' pats' (buf # lines) res prev =
       (if FLAG_VERBOSE flags'
        then (fst (maps_loop env' flags' pid' pats' lines 0 (filename m)),
              (fmt_pid pid' @ [TAB] @ filename m @ [NL])
                # snd (maps_loop env' flags' pid' pats' lines 0 (filename m)))
        else (0, [fmt_pid pid' @ [NL]]))"
    by (rule maps_line_reported [OF h1 h2 h3 h4 h5 nz])
qed

text \<open>
  The replaced file is gone from the disk (\<^verbatim>\<open>open\<close> fails), or \<^verbatim>\<open>fstat\<close> fails on it, or it
  cannot be mapped: each time \<open>cmp_files\<close> returns \<^verbatim>\<open>RET_ERROR\<close> and the process is
  reported, with the path in verbose mode.
\<close>

theorem C10_failed_comparison_is_stale_witness:
  "open_ro env_init_gone (PROC_ROOT_PATH 1 ''/sbin/init'') = None
   \<and> cmp_files env_init_gone (PROC_EXE_PATH 1) (PROC_ROOT_PATH 1 ''/sbin/init'') = RET_ERROR
   \<and> readlink env_init_gone (PROC_EXE_PATH 1) = Inr ''/sbin/init (deleted)''
   \<and> str_chomp ''/sbin/init (deleted)'' '' (deleted)'' = (True, ''/sbin/init'')
   \<and> str_chomp ''/sbin/init'' ''.apk-new'' = (False, ''/sbin/init'')
   \<and> selected [] ''/sbin/init''
   \<and> proc_has_replaced_exe env_init_gone quiet 1 [] = (0, [''1'' @ [NL]])
   \<and> proc_has_replaced_exe env_init_gone verbose 1 []
       = (0, [''1'' @ [TAB] @ ''/sbin/init'' @ [NL]])
   \<and> parse_line (libfoo_line ''r--p'') = Some libfoo_entry
   \<and> open_ro env_libfoo_gone ''/usr/lib/libfoo.so.1'' = None
   \<and> cmp_files env_libfoo_gone ''/usr/lib/libfoo.so.1''
        ''/proc/7/map_files/7f0000000000-7f0000021000'' = RET_ERROR
   \<and> maps_loop env_libfoo_gone verbose 7 [] [libfoo_line ''r--p''] 1 []
       = (0, [''7'' @ [TAB] @ ''/usr/lib/libfoo.so.1'' @ [NL]])
   \<and> maps_loop env_libfoo_gone quiet 7 [] [libfoo_line ''r--p''] 1 [] = (0, [''7'' @ [NL]])
   \<and> cmp_files env_libfoo_nostat ''/usr/lib/libfoo.so.1''
        ''/proc/7/map_files/7f0000000000-7f0000021000'' = RET_ERROR
   \<and> maps_loop env_libfoo_nostat quiet 7 [] [libfoo_line ''r--p''] 1 [] = (0, [''7'' @ [NL]])
   \<and> cmp_files env_libfoo_nomap ''/usr/lib/libfoo.so.1''
        ''/proc/7/map_files/7f0000000000-7f0000021000'' = RET_ERROR
   \<and> maps_loop env_libfoo_nomap verbose 7 [] [libfoo_line ''r--p''] 1 []
       = (0, [''7'' @ [TAB] @ ''/usr/lib/libfoo.so.1'' @ [NL]])"
proof -
  let ?lib = "''/usr/lib/libfoo.so.1''"
  let ?mf = "''/proc/7/map_files/7f0000000000-7f0000021000''"
  let ?buf = "libfoo_line ''r--p''"
  let ?exe = "PROC_EXE_PATH 1"
  let ?root = "PROC_ROOT_PATH 1 ''/sbin/init''"
  let ?old = "\<lparr>st_size = Some 3, map_bytes = Some ''old''\<rparr>"
  note T = C10_failed_comparison_is_stale
  have mf: "PROC_MAP_FILES_PATH 7 (m_start libfoo_entry) (m_end libfoo_entry) = ?mf"
    by (simp add: libfoo_entry_def PROC_MAP_FILES_PATH_def fmt_u_def dec_str.simps hex_str.simps
        digit_char_def)
  have fn: "filename libfoo_entry = ?lib"
    by (simp add: libfoo_entry_def)
  have pid1: "fmt_pid 1 = ''1''" and pid7: "fmt_pid 7 = ''7''"
    by (simp_all add: fmt_pid_def dec_str.simps digit_char_def)
  have e1: "readlink env_init_gone ?exe = Inr ''/sbin/init (deleted)''"
    by (simp add: env_init_gone_def env_init_replaced_def env_none_def PROC_EXE_PATH_def
        fmt_u_def dec_str.simps digit_char_def)
  have e2: "length ''/sbin/init (deleted)'' < PATH_MAX"
    by (simp add: PATH_MAX_def)
  have e3: "str_chomp ''/sbin/init (deleted)'' '' (deleted)'' = (True, ''/sbin/init'')"
    by (simp add: str_chomp_def)
  have e4: "str_chomp ''/sbin/init'' ''.apk-new'' = (False, ''/sbin/init'')"
    by (simp add: str_chomp_def)
  have e5: "selected [] ''/sbin/init''"
    by (simp add: selected_def)
  have e6: "open_ro env_init_gone ?root = None"
    by (simp add: env_init_gone_def env_init_replaced_def env_none_def PROC_ROOT_PATH_def
        fmt_u_def dec_str.simps digit_char_def)
  have e7: "cannot_compare env_init_gone ?exe ?root"
    by (simp add: cannot_compare_def unusable_def e6)
  from T [of env_init_gone ?exe ?root] e6 have c1: "cmp_files env_init_gone ?exe ?root = RET_ERROR"
    by blast
  have x: "proc_has_replaced_exe env_init_gone flags 1 [] =
       (0, [if FLAG_VERBOSE flags then fmt_pid 1 @ [TAB] @ ''/sbin/init'' @ [NL]
            else fmt_pid 1 @ [NL]])" for flags
    using T [where env = env_init_gone and pid = 1 and target = "''/sbin/init (deleted)''"
        and stripped = "''/sbin/init''" and pats = "[]" and flags = flags]
      e1 e2 e3 e5 e7
    by (simp only: e4 snd_conv) blast
  have x1: "proc_has_replaced_exe env_init_gone quiet 1 [] = (0, [''1'' @ [NL]])"
    by (simp only: x pid1) (simp add: quiet_def)
  have x2: "proc_has_replaced_exe env_init_gone verbose 1 []
      = (0, [''1'' @ [TAB] @ ''/sbin/init'' @ [NL]])"
    by (simp only: x pid1) (simp add: verbose_def)
  have p2: "filename libfoo_entry \<noteq> []" and p3: "inode libfoo_entry \<noteq> 0"
    and p4: "dev_major libfoo_entry \<noteq> 0" and p5: "selected [] (filename libfoo_entry)"
    by (simp_all add: libfoo_entry_def selected_def)
  have l: "maps_loop E flags 7 [] [?buf] 1 [] =
       (if FLAG_VERBOSE flags then (0, [fmt_pid 7 @ [TAB] @ ?lib @ [NL]])
        else (0, [fmt_pid 7 @ [NL]]))"
    if "cannot_compare E ?lib ?mf" for E flags
    using T [where env' = E and flags' = flags and pid' = 7 and pats' = "[]" and buf = ?buf
        and m = libfoo_entry and prev = "[]" and lines = "[]" and res = 1]
      parse_libfoo(1) p2 p3 p4 p5 that
    by (simp only: mf fn) (simp add: fn)
  have g0: "open_ro env_libfoo_gone ?lib = None"
    by (simp add: env_libfoo_gone_def env_libfoo_def env_none_def)
  have g1: "cannot_compare env_libfoo_gone ?lib ?mf"
    by (simp add: cannot_compare_def unusable_def g0)
  from T [of env_libfoo_gone ?lib ?mf] g0
  have g2: "cmp_files env_libfoo_gone ?lib ?mf = RET_ERROR"
    by blast
  have g3: "maps_loop env_libfoo_gone verbose 7 [] [?buf] 1 []
      = (0, [''7'' @ [TAB] @ ?lib @ [NL]])"
    by (simp only: l [OF g1] pid7) (simp add: verbose_def)
  have g4: "maps_loop env_libfoo_gone quiet 7 [] [?buf] 1 [] = (0, [''7'' @ [NL]])"
    by (simp only: l [OF g1] pid7) (simp add: quiet_def)
  have s0: "open_ro env_libfoo_nostat ?lib = Some \<lparr>st_size = None, map_bytes = Some ''old''\<rparr>"
    and s0': "open_ro env_libfoo_nostat ?mf = Some ?old"
    by (simp_all add: env_libfoo_nostat_def env_libfoo_def env_none_def)
  have s1: "cannot_compare env_libfoo_nostat ?lib ?mf"
    by (simp add: cannot_compare_def unusable_def s0)
  from T [of env_libfoo_nostat ?lib ?mf "\<lparr>st_size = None, map_bytes = Some ''old''\<rparr>" ?old]
    s0 s0'
  have s2: "cmp_files env_libfoo_nostat ?lib ?mf = RET_ERROR"
    by simp
  have s3: "maps_loop env_libfoo_nostat quiet 7 [] [?buf] 1 [] = (0, [''7'' @ [NL]])"
    by (simp only: l [OF s1] pid7) (simp add: quiet_def)
  have m0: "open_ro env_libfoo_nomap ?lib = Some \<lparr>st_size = Some 3, map_bytes = None\<rparr>"
    and m0': "open_ro env_libfoo_nomap ?mf = Some ?old"
    by (simp_all add: env_libfoo_nomap_def env_libfoo_def env_none_def)
  have m1: "cannot_compare env_libfoo_nomap ?lib ?mf"
    by (simp add: cannot_compare_def unusable_def m0 mmap_def)
  from T [of env_libfoo_nomap ?lib ?mf "\<lparr>st_size = Some 3, map_bytes = None\<rparr>" ?old 3]
    m0 m0'
  have m2: "cmp_files env_libfoo_nomap ?lib ?mf = RET_ERROR"
    by (simp add: mmap_def)
  have m3: "maps_loop env_libfoo_nomap verbose 7 [] [?buf] 1 []
      = (0, [''7'' @ [TAB] @ ?lib @ [NL]])"
    by (simp only: l [OF m1] pid7) (simp add: verbose_def)
  from e6 c1 e1 e3 e4 e5 x1 x2 parse_libfoo(1) g0 g2 g3 g4 s2 s3 m2 m3 show ?thesis
    by (intro conjI)
qed

end
